theory Spec2Isabelle
  imports Complex_Main
begin

section \<open>Python values\<close>

text \<open>
  Both handlers work on what \<^verbatim>\<open>json.loads\<close> and the Lambda runtime hand them: untyped
  Python objects. A dict is an association list read with \<open>map_of\<close> (the first binding
  of a key is the dict's entry), a str is the list of its bytes in UTF-8, an int is
  unbounded, and a finite float is the rational it denotes.
\<close>

datatype pyfloat = Finite rat | PosInf | NegInf | NaN

datatype pyval =
    PyNone
  | PyBool bool
  | PyInt int
  | PyFloat pyfloat
  | PyStr string
  | PyList "pyval list"
  | PyDict "(string \<times> pyval) list"

text \<open>
  The exceptions of the two modules. All of them are subclasses of \<^verbatim>\<open>Exception\<close>
  (what \<^verbatim>\<open>except Exception\<close> does not catch, such as \<^verbatim>\<open>KeyboardInterrupt\<close>, is left
  out). \<open>ClientError\<close> is botocore's error for a request the service answered with an
  error; \<open>ParamValidationError\<close> is its refusal of a request before it is sent and
  \<open>EndpointConnectionError\<close> a transport failure, neither of them a \<open>ClientError\<close>;
  \<open>OtherError\<close> is any other exception of a library (\<^verbatim>\<open>JSONDecodeError\<close>,
  \<^verbatim>\<open>UnicodeDecodeError\<close>, ...), by name.
\<close>

datatype exn =
    AttributeError
  | KeyError
  | TypeError
  | ValueError
  | OverflowError
  | Exception
  | ClientError
  | ParamValidationError
  | EndpointConnectionError
  | OtherError string

text \<open>\<^verbatim>\<open>not x\<close> is \<open>\<not> truthy x\<close>.\<close>

fun truthy :: "pyval \<Rightarrow> bool" where
  "truthy PyNone = False"
| "truthy (PyBool b) = b"
| "truthy (PyInt i) = (i \<noteq> 0)"
| "truthy (PyFloat f) = (f \<noteq> Finite 0)"
| "truthy (PyStr s) = (s \<noteq> [])"
| "truthy (PyList xs) = (xs \<noteq> [])"
| "truthy (PyDict kvs) = (kvs \<noteq> [])"

text \<open>\<^verbatim>\<open>x.get(k, d)\<close>: only a dict has the method.\<close>

fun py_get :: "pyval \<Rightarrow> string \<Rightarrow> pyval \<Rightarrow> exn + pyval" where
  "py_get (PyDict kvs) k d = Inr (case map_of kvs k of Some v \<Rightarrow> v | None \<Rightarrow> d)"
| "py_get PyNone k d = Inl AttributeError"
| "py_get (PyBool b) k d = Inl AttributeError"
| "py_get (PyInt i) k d = Inl AttributeError"
| "py_get (PyFloat f) k d = Inl AttributeError"
| "py_get (PyStr s) k d = Inl AttributeError"
| "py_get (PyList xs) k d = Inl AttributeError"

text \<open>
  \<^verbatim>\<open>x[k]\<close> for a str \<open>k\<close>: a dict without the key raises KeyError; a list or a str
  takes integer indices only, and the other objects are not subscriptable (TypeError).
\<close>

fun py_getitem :: "pyval \<Rightarrow> string \<Rightarrow> exn + pyval" where
  "py_getitem (PyDict kvs) k = (case map_of kvs k of Some v \<Rightarrow> Inr v | None \<Rightarrow> Inl KeyError)"
| "py_getitem PyNone k = Inl TypeError"
| "py_getitem (PyBool b) k = Inl TypeError"
| "py_getitem (PyInt i) k = Inl TypeError"
| "py_getitem (PyFloat f) k = Inl TypeError"
| "py_getitem (PyStr s) k = Inl TypeError"
| "py_getitem (PyList xs) k = Inl TypeError"

subsection \<open>The interpreter\<close>

text \<open>
  Three things that the two modules leave to the interpreter are its parameters here:
  \<open>repr\<close> is the printed form of an object that is no str, \<open>int_max_str_digits\<close> is
  the limit on the digits of a decimal literal (\<^verbatim>\<open>sys.get_int_max_str_digits()\<close>, 4300
  unless it is set; 0 is no limit, which is also the interpreter that has none), and
  \<open>int_unicode\<close> is what \<^verbatim>\<open>int\<close> reads in a str that has a character outside ASCII,
  where the digits and the white space are those of the interpreter's Unicode database
  (\<open>None\<close>: no integer).
\<close>

record interpreter =
  repr :: "pyval \<Rightarrow> string"
  int_max_str_digits :: nat
  int_unicode :: "string \<Rightarrow> int option"

subsection \<open>int()\<close>

text \<open>
  \<^verbatim>\<open>int(s)\<close> for a str of ASCII characters: white space (the characters 9 to 13 and
  32) is skipped at both ends; then come an optional sign and decimal digits, in which
  single underscores may stand between two digits. Anything else is no integer.
\<close>

definition is_ascii :: "char \<Rightarrow> bool" where
  "is_ascii c = ((of_char c :: nat) < 128)"

definition py_isspace :: "char \<Rightarrow> bool" where
  "py_isspace c = (of_char c \<in> {9, 10, 11, 12, 13, 32 :: nat})"

definition is_digit :: "char \<Rightarrow> bool" where
  "is_digit c = (48 \<le> (of_char c :: nat) \<and> (of_char c :: nat) \<le> 57)"

definition digit_value :: "char \<Rightarrow> nat" where
  "digit_value c = of_char c - 48"

fun parse_digits :: "string \<Rightarrow> nat \<Rightarrow> nat option" where
  "parse_digits [] acc = Some acc"
| "parse_digits (c # cs) acc =
     (if is_digit c then parse_digits cs (10 * acc + digit_value c)
      else if c = CHR ''_'' then
        (case cs of
           [] \<Rightarrow> None
         | d # ds \<Rightarrow> if is_digit d then parse_digits ds (10 * acc + digit_value d) else None)
      else None)"

definition parse_unsigned :: "string \<Rightarrow> nat option" where
  "parse_unsigned s =
     (case s of
        [] \<Rightarrow> None
      | c # cs \<Rightarrow> if is_digit c then parse_digits cs (digit_value c) else None)"

definition strip :: "string \<Rightarrow> string" where
  "strip s = rev (dropWhile py_isspace (rev (dropWhile py_isspace s)))"

definition int_of_string :: "string \<Rightarrow> int option" where
  "int_of_string s =
     (case strip s of
        [] \<Rightarrow> None
      | c # cs \<Rightarrow>
          if c = CHR ''-'' then map_option (\<lambda>n. - int n) (parse_unsigned cs)
          else if c = CHR ''+'' then map_option int (parse_unsigned cs)
          else map_option int (parse_unsigned (c # cs)))"

text \<open>
  The limit on the digits: a literal of more than 640 digits, and of more than the
  limit when there is one, is refused. The zeros in front count, the underscores do not.
\<close>

definition over_limit :: "nat \<Rightarrow> string \<Rightarrow> bool" where
  "over_limit m s =
     (let digits = length (filter is_digit s) in 640 < digits \<and> 0 < m \<and> m < digits)"

definition int_of_str :: "interpreter \<Rightarrow> string \<Rightarrow> int option" where
  "int_of_str py s =
     (if list_all is_ascii s
      then (if over_limit (int_max_str_digits py) s then None else int_of_string s)
      else int_unicode py s)"

text \<open>
  \<^verbatim>\<open>int(x)\<close>: a float is truncated towards zero, an infinity raises OverflowError, a
  NaN and a str that is no integer raise ValueError, and None, a list and a dict raise
  TypeError.
\<close>

fun py_int :: "interpreter \<Rightarrow> pyval \<Rightarrow> exn + int" where
  "py_int py (PyInt i) = Inr i"
| "py_int py (PyBool b) = Inr (if b then 1 else 0)"
| "py_int py (PyFloat (Finite q)) = Inr (if q < 0 then - floor (- q) else floor q)"
| "py_int py (PyFloat PosInf) = Inl OverflowError"
| "py_int py (PyFloat NegInf) = Inl OverflowError"
| "py_int py (PyFloat NaN) = Inl ValueError"
| "py_int py (PyStr s) = (case int_of_str py s of Some i \<Rightarrow> Inr i | None \<Rightarrow> Inl ValueError)"
| "py_int py PyNone = Inl TypeError"
| "py_int py (PyList xs) = Inl TypeError"
| "py_int py (PyDict kvs) = Inl TypeError"

text \<open>\<^verbatim>\<open>str(x)\<close>: a str is itself; any other object gives its printed form.\<close>

definition py_str :: "interpreter \<Rightarrow> pyval \<Rightarrow> string" where
  "py_str py x = (case x of PyStr s \<Rightarrow> s | _ \<Rightarrow> repr py x)"

subsection \<open>urllib.parse.unquote_plus\<close>

text \<open>
  \<^verbatim>\<open>unquote_plus\<close> turns every \<^verbatim>\<open>+\<close> into a space and then unquotes: each run of
  ASCII characters has its \<^verbatim>\<open>%XX\<close> escapes replaced by the bytes they name (an escape
  without two hexadecimal digits stays as it is) and the bytes of the run are decoded as
  UTF-8 with \<^verbatim>\<open>errors='replace'\<close>, every ill-formed sequence giving one U+FFFD;
  characters outside ASCII are kept.
\<close>

definition hex_value :: "char \<Rightarrow> nat option" where
  "hex_value c =
     (let n = of_char c :: nat in
      if 48 \<le> n \<and> n \<le> 57 then Some (n - 48)
      else if 65 \<le> n \<and> n \<le> 70 then Some (n - 55)
      else if 97 \<le> n \<and> n \<le> 102 then Some (n - 87)
      else None)"

fun unquote_to_bytes :: "string \<Rightarrow> string" where
  "unquote_to_bytes (c # h # l # cs) =
     (if c = CHR ''%'' then
        (case hex_value h of
           None \<Rightarrow> c # unquote_to_bytes (h # l # cs)
         | Some a \<Rightarrow>
            (case hex_value l of
               None \<Rightarrow> c # unquote_to_bytes (h # l # cs)
             | Some b \<Rightarrow> char_of (16 * a + b) # unquote_to_bytes cs))
      else c # unquote_to_bytes (h # l # cs))"
| "unquote_to_bytes cs = cs"

definition continuation :: "char \<Rightarrow> bool" where
  "continuation c = (128 \<le> (of_char c :: nat) \<and> (of_char c :: nat) < 192)"

text \<open>The second byte a lead byte \<open>n\<close> of a three or four byte sequence admits.\<close>

definition second_ok :: "nat \<Rightarrow> char \<Rightarrow> bool" where
  "second_ok n c =
     (let m = of_char c :: nat in
      if n = 224 then 160 \<le> m \<and> m < 192
      else if n = 237 then 128 \<le> m \<and> m < 160
      else if n = 240 then 144 \<le> m \<and> m < 192
      else if n = 244 then 128 \<le> m \<and> m < 144
      else 128 \<le> m \<and> m < 192)"

text \<open>U+FFFD in UTF-8.\<close>

definition replacement :: string where
  "replacement = [char_of (239 :: nat), char_of (191 :: nat), char_of (189 :: nat)]"

text \<open>
  The sequence that starts with the byte \<open>c\<close>, followed by \<open>cs\<close>: how many of the bytes
  of \<open>cs\<close> belong to it, and whether it is well formed. An ill-formed sequence ends
  before the first byte that cannot continue it.
\<close>

definition first_sequence :: "char \<Rightarrow> string \<Rightarrow> nat \<times> bool" where
  "first_sequence c cs =
     (let n = of_char c :: nat in
      if n < 128 then (0, True)
      else if 194 \<le> n \<and> n < 224 then
        (case cs of
           [] \<Rightarrow> (0, False)
         | c2 # r2 \<Rightarrow> if continuation c2 then (1, True) else (0, False))
      else if 224 \<le> n \<and> n < 240 then
        (case cs of
           [] \<Rightarrow> (0, False)
         | c2 # r2 \<Rightarrow>
            if \<not> second_ok n c2 then (0, False)
            else
              (case r2 of
                 [] \<Rightarrow> (1, False)
               | c3 # r3 \<Rightarrow> if continuation c3 then (2, True) else (1, False)))
      else if 240 \<le> n \<and> n < 245 then
        (case cs of
           [] \<Rightarrow> (0, False)
         | c2 # r2 \<Rightarrow>
            if \<not> second_ok n c2 then (0, False)
            else
              (case r2 of
                 [] \<Rightarrow> (1, False)
               | c3 # r3 \<Rightarrow>
                  if \<not> continuation c3 then (1, False)
                  else
                    (case r3 of
                       [] \<Rightarrow> (2, False)
                     | c4 # r4 \<Rightarrow> if continuation c4 then (3, True) else (2, False))))
      else (0, False))"

text \<open>
  Decoding with \<^verbatim>\<open>errors='replace'\<close>, and encoding again: a well-formed sequence
  stays, an ill-formed one becomes U+FFFD.
\<close>

fun utf8_replace :: "string \<Rightarrow> string" where
  "utf8_replace [] = []"
| "utf8_replace (c # cs) =
     (case first_sequence c cs of
        (k, ok) \<Rightarrow>
          (if ok then c # take k cs else replacement) @ utf8_replace (drop k cs))"

function unquote_runs :: "string \<Rightarrow> string" where
  "unquote_runs [] = []"
| "unquote_runs (c # cs) =
     (if is_ascii c then
        utf8_replace (unquote_to_bytes (takeWhile is_ascii (c # cs)))
          @ unquote_runs (dropWhile is_ascii (c # cs))
      else c # unquote_runs cs)"
  by pat_completeness auto
termination
  by (relation "measure length") (auto simp: less_Suc_eq_le length_dropWhile_le)

definition unquote :: "string \<Rightarrow> string" where
  "unquote s = (if CHR ''%'' \<notin> set s then s else unquote_runs s)"

definition unquote_plus :: "string \<Rightarrow> string" where
  "unquote_plus s = unquote (map (\<lambda>c. if c = CHR ''+'' then CHR '' '' else c) s)"

text \<open>On anything but a str, \<^verbatim>\<open>string.replace\<close> is missing.\<close>

fun py_unquote_plus :: "pyval \<Rightarrow> exn + pyval" where
  "py_unquote_plus (PyStr s) = Inr (PyStr (unquote_plus s))"
| "py_unquote_plus PyNone = Inl AttributeError"
| "py_unquote_plus (PyBool b) = Inl AttributeError"
| "py_unquote_plus (PyInt i) = Inl AttributeError"
| "py_unquote_plus (PyFloat f) = Inl AttributeError"
| "py_unquote_plus (PyList xs) = Inl AttributeError"
| "py_unquote_plus (PyDict kvs) = Inl AttributeError"

subsection \<open>len() and iteration\<close>

text \<open>
  \<^verbatim>\<open>len(x)\<close>, which \<^verbatim>\<open>handler\<close> evaluates for its log line: None, a bool and a number
  have no length. The keys of a dict are those of the association list, each once.
\<close>

fun dict_keys :: "(string \<times> pyval) list \<Rightarrow> string list" where
  "dict_keys [] = []"
| "dict_keys ((k, v) # kvs) = k # filter (\<lambda>k'. k' \<noteq> k) (dict_keys kvs)"

fun py_len :: "pyval \<Rightarrow> exn + nat" where
  "py_len (PyList xs) = Inr (length xs)"
| "py_len (PyDict kvs) = Inr (length (dict_keys kvs))"
| "py_len (PyStr s) = Inr (length s)"
| "py_len PyNone = Inl TypeError"
| "py_len (PyBool b) = Inl TypeError"
| "py_len (PyInt i) = Inl TypeError"
| "py_len (PyFloat f) = Inl TypeError"

text \<open>
  \<^verbatim>\<open>for x in xs\<close>: a list gives its elements, a dict its keys, a str its characters
  (here: its bytes, one str each).
\<close>

fun py_iter :: "pyval \<Rightarrow> exn + pyval list" where
  "py_iter (PyList xs) = Inr xs"
| "py_iter (PyDict kvs) = Inr (map PyStr (dict_keys kvs))"
| "py_iter (PyStr s) = Inr (map (\<lambda>c. PyStr [c]) s)"
| "py_iter PyNone = Inl TypeError"
| "py_iter (PyBool b) = Inl TypeError"
| "py_iter (PyInt i) = Inl TypeError"
| "py_iter (PyFloat f) = Inl TypeError"

section \<open>The storage service and the metrics\<close>

text \<open>
  A call on the boto3 client is its method and its keyword arguments. The service is a
  parameter: \<open>env\<close> answers a call, given the calls made before it. An answer raises, or
  it is a response; of the response to \<^verbatim>\<open>get_object\<close> the handlers use the body only,
  which cannot be read or decoded (\<open>Unreadable\<close>), is no JSON (\<open>Unparseable\<close>), or
  is what \<^verbatim>\<open>json.loads\<close> returns for it (\<open>Parsed\<close>).
\<close>

datatype s3_method =
    get_object
  | put_object_tagging
  | put_bucket_lifecycle_configuration
  | put_bucket_notification_configuration

type_synonym s3_call = "s3_method \<times> (string \<times> pyval) list"

datatype payload = Unreadable exn | Unparseable exn | Parsed pyval

datatype response = Raises exn | Response payload

type_synonym s3_env = "s3_call list \<Rightarrow> s3_call \<Rightarrow> response"

text \<open>
  What a handler leaves behind: the calls it made on the client, in order, and the
  metrics it added (name and value; the unit is always Count).
\<close>

record world =
  calls :: "s3_call list"
  metrics :: "(string \<times> nat) list"

definition add_metric :: "string \<Rightarrow> nat \<Rightarrow> world \<Rightarrow> world" where
  "add_metric name val w = w\<lparr>metrics := metrics w @ [(name, val)]\<rparr>"

text \<open>
  The client checks the arguments before it sends anything: a call whose bucket, key
  or version is not a str (None, for one) is refused there, with an exception that is
  no \<open>ClientError\<close>: the check of the bucket's name raises TypeError on anything but a
  str, the validation of the other arguments \<open>ParamValidationError\<close>. Every other
  answer is the service's, \<open>env\<close>; it may refuse more.
\<close>

definition accepted :: "s3_call \<Rightarrow> bool" where
  "accepted c =
     (case c of (m, params) \<Rightarrow>
        (case map_of params ''Bucket'' of Some (PyStr b) \<Rightarrow> True | _ \<Rightarrow> False) \<and>
        (if m = get_object \<or> m = put_object_tagging
         then (case map_of params ''Key'' of Some (PyStr k) \<Rightarrow> True | _ \<Rightarrow> False)
         else True) \<and>
        (case map_of params ''VersionId'' of
           None \<Rightarrow> True | Some (PyStr v) \<Rightarrow> True | Some _ \<Rightarrow> False))"

definition refusal :: "s3_call \<Rightarrow> exn" where
  "refusal c =
     (case map_of (snd c) ''Bucket'' of
        None \<Rightarrow> ParamValidationError
      | Some (PyStr b) \<Rightarrow> ParamValidationError
      | Some _ \<Rightarrow> TypeError)"

definition answer :: "s3_env \<Rightarrow> s3_call list \<Rightarrow> s3_call \<Rightarrow> response" where
  "answer env before c = (if accepted c then env before c else Raises (refusal c))"

definition client_call ::
    "s3_env \<Rightarrow> s3_method \<Rightarrow> (string \<times> pyval) list \<Rightarrow> world \<Rightarrow> response \<times> world" where
  "client_call env m params w =
     (answer env (calls w) (m, params), w\<lparr>calls := calls w @ [(m, params)]\<rparr>)"

section \<open>Raising\<close>

text \<open>
  A Python function that may raise returns \<open>Inl\<close> of the exception or \<open>Inr\<close> of its
  value, with the world as it has become. \<open>attempt r w k\<close> evaluates an expression
  without effects: if it raised, the exception leaves the function in the world \<open>w\<close>;
  otherwise the function goes on with \<open>k\<close>. \<open>and_then\<close> does the same after a call
  that changed the world.
\<close>

fun attempt ::
    "exn + 'a \<Rightarrow> world \<Rightarrow> ('a \<Rightarrow> (exn + 'b) \<times> world) \<Rightarrow> (exn + 'b) \<times> world" where
  "attempt (Inl e) w k = (Inl e, w)"
| "attempt (Inr x) w k = k x"

fun and_then ::
    "(exn + 'a) \<times> world \<Rightarrow> ('a \<Rightarrow> world \<Rightarrow> (exn + 'b) \<times> world) \<Rightarrow> (exn + 'b) \<times> world" where
  "and_then (Inl e, w) k = (Inl e, w)"
| "and_then (Inr x, w) k = k x w"

section \<open>The Classification Tagger: \<^verbatim>\<open>eventbridge-macie/lambda_handler.py\<close>\<close>

text \<open>
  The module reads its four settings from the process environment when it is loaded;
  a setting that is empty or no integer makes the load fail.
\<close>

record tagger_config =
  TAG_KEY_NAME :: string
  SCORE_THRESHOLD :: int
  GLACIER_TRANSITION_DAYS :: int
  EXPIRE_OBJECTS_DAYS :: int

definition getenv :: "(string \<rightharpoonup> string) \<Rightarrow> string \<Rightarrow> pyval \<Rightarrow> pyval" where
  "getenv environ k d = (case environ k of Some s \<Rightarrow> PyStr s | None \<Rightarrow> d)"

definition getenv_int :: "interpreter \<Rightarrow> (string \<rightharpoonup> string) \<Rightarrow> string \<Rightarrow> int \<Rightarrow> exn + int" where
  "getenv_int py environ k d =
     (case py_int py (getenv environ k (PyInt d)) of
        Inl e \<Rightarrow> if e = ValueError then Inl Exception else Inl e
      | Inr i \<Rightarrow> Inr i)"

definition load_config :: "interpreter \<Rightarrow> (string \<rightharpoonup> string) \<Rightarrow> exn + tagger_config" where
  "load_config py environ =
     (let tag = (case environ ''TAG_KEY_NAME'' of Some s \<Rightarrow> s | None \<Rightarrow> ''Severity'') in
      if tag = [] then Inl Exception
      else
        (case getenv_int py environ ''SCORE_THRESHOLD'' 3 of
           Inl e \<Rightarrow> Inl e
         | Inr threshold \<Rightarrow>
            (case getenv_int py environ ''GLACIER_TRANSITION_DAYS'' 365 of
               Inl e \<Rightarrow> Inl e
             | Inr glacier \<Rightarrow>
                (case getenv_int py environ ''EXPIRE_OBJECTS_DAYS'' 1825 of
                   Inl e \<Rightarrow> Inl e
                 | Inr expire \<Rightarrow>
                    Inr \<lparr>TAG_KEY_NAME = tag, SCORE_THRESHOLD = threshold,
                         GLACIER_TRANSITION_DAYS = glacier, EXPIRE_OBJECTS_DAYS = expire\<rparr>))))"

text \<open>
  \<^verbatim>\<open>get_json_object\<close>: every exception of the three statements under \<^verbatim>\<open>try\<close> is
  caught (\<^verbatim>\<open>except Exception\<close>) and the function then returns None.
\<close>

definition get_json_object ::
    "s3_env \<Rightarrow> pyval \<Rightarrow> pyval \<Rightarrow> pyval \<Rightarrow> world \<Rightarrow> pyval \<times> world" where
  "get_json_object env bucket key version_id w =
     (let params = [(''Bucket'', bucket), (''Key'', key)];
          params = (if truthy version_id then params @ [(''VersionId'', version_id)] else params)
      in case client_call env get_object params w of
           (Raises e, w1) \<Rightarrow> (PyNone, w1)
         | (Response (Unreadable e), w1) \<Rightarrow> (PyNone, w1)
         | (Response (Unparseable e), w1) \<Rightarrow> (PyNone, w1)
         | (Response (Parsed data), w1) \<Rightarrow> (data, w1))"

text \<open>
  \<^verbatim>\<open>tag_object\<close>: only \<^verbatim>\<open>botocore.exceptions.ClientError\<close> is caught; the \<^verbatim>\<open>else\<close>
  branch counts a success.
\<close>

definition tag_object ::
    "interpreter \<Rightarrow> tagger_config \<Rightarrow> s3_env \<Rightarrow> pyval \<Rightarrow> pyval \<Rightarrow> pyval \<Rightarrow> pyval \<Rightarrow> world
      \<Rightarrow> (exn + unit) \<times> world" where
  "tag_object py cfg env val bucket key version_id w =
     (let params =
            [(''Bucket'', bucket), (''Key'', key),
             (''Tagging'',
                PyDict [(''TagSet'',
                  PyList [PyDict [(''Key'', PyStr (TAG_KEY_NAME cfg)),
                                  (''Value'', PyStr (py_str py val))]])])];
          params = (if truthy version_id then params @ [(''VersionId'', version_id)] else params)
      in case client_call env put_object_tagging params w of
           (Raises e, w1) \<Rightarrow>
             if e = ClientError then (Inr (), add_metric ''TaggingFailed'' 1 w1) else (Inl e, w1)
         | (Response r, w1) \<Rightarrow> (Inr (), add_metric ''TaggingSuccess'' 1 w1))"

text \<open>\<^verbatim>\<open>lifecycle_config\<close>: again only \<^verbatim>\<open>ClientError\<close> is caught.\<close>

definition lifecycle_config ::
    "tagger_config \<Rightarrow> s3_env \<Rightarrow> pyval \<Rightarrow> pyval \<Rightarrow> world \<Rightarrow> (exn + unit) \<times> world" where
  "lifecycle_config cfg env bucket key w =
     (let config =
            PyDict [(''Rules'',
              PyList [PyDict
                [(''Filter'', PyDict [(''Prefix'', key)]),
                 (''Status'', PyStr ''Enabled''),
                 (''NoncurrentVersionTransitions'',
                    PyList [PyDict [(''NoncurrentDays'', PyInt (GLACIER_TRANSITION_DAYS cfg)),
                                    (''StorageClass'', PyStr ''GLACIER'')]]),
                 (''NoncurrentVersionExpiration'',
                    PyDict [(''NoncurrentDays'', PyInt (EXPIRE_OBJECTS_DAYS cfg))])]])]
      in case client_call env put_bucket_lifecycle_configuration
                [(''Bucket'', bucket), (''LifecycleConfiguration'', config)] w of
           (Raises e, w1) \<Rightarrow> if e = ClientError then (Inr (), w1) else (Inl e, w1)
         | (Response r, w1) \<Rightarrow> (Inr (), w1))"

text \<open>\<^verbatim>\<open>x.get(a, {}).get(b, {}).get(c)\<close>, as the record's three fields are read.\<close>

definition get3 :: "pyval \<Rightarrow> string \<Rightarrow> string \<Rightarrow> string \<Rightarrow> exn + pyval" where
  "get3 x a b c =
     (case py_get x a (PyDict []) of
        Inl e \<Rightarrow> Inl e
      | Inr y \<Rightarrow>
         (case py_get y b (PyDict []) of
            Inl e \<Rightarrow> Inl e
          | Inr z \<Rightarrow> py_get z c PyNone))"

text \<open>
  \<^verbatim>\<open>process_record\<close>, statement by statement. The logger and the messages made for
  it are left out: they change neither the calls nor the metrics, and printing a value
  that \<^verbatim>\<open>json.loads\<close> or \<^verbatim>\<open>int\<close> returned raises nothing.
\<close>

definition process_record ::
    "interpreter \<Rightarrow> tagger_config \<Rightarrow> s3_env \<Rightarrow> pyval \<Rightarrow> world \<Rightarrow> (exn + unit) \<times> world" where
  "process_record py cfg env record w =
     attempt (get3 record ''s3'' ''bucket'' ''name'') w (\<lambda>bucket.
     attempt (get3 record ''s3'' ''object'' ''key'') w (\<lambda>key0.
     attempt (if truthy key0 then py_unquote_plus key0 else Inr key0) w (\<lambda>key.
     attempt (get3 record ''s3'' ''object'' ''versionId'') w (\<lambda>version_id.
     (case get_json_object env bucket key version_id w of (data, w1) \<Rightarrow>
     if \<not> truthy data then (Inr (), add_metric ''EmptyObject'' 1 w1) else
     attempt (py_get data ''detail'' (PyDict [])) w1 (\<lambda>detail.
     attempt (py_getitem detail ''severity'') w1 (\<lambda>severity.
     attempt (py_getitem severity ''score'') w1 (\<lambda>score.
     attempt (py_int py score) w1 (\<lambda>severity_score.
     attempt (py_getitem detail ''severity'') w1 (\<lambda>severity'.
     attempt (py_getitem severity' ''description'') w1 (\<lambda>severity_desc.
     attempt (py_get detail ''resourcesAffected'' (PyDict [])) w1 (\<lambda>resourcesAffected.
     if \<not> truthy resourcesAffected then (Inr (), add_metric ''MissingResources'' 1 w1) else
     attempt (py_getitem resourcesAffected ''s3Bucket'') w1 (\<lambda>s3Bucket.
     attempt (py_getitem s3Bucket ''name'') w1 (\<lambda>affected_bucket.
     attempt (py_getitem resourcesAffected ''s3Object'') w1 (\<lambda>s3Object.
     attempt (py_getitem s3Object ''key'') w1 (\<lambda>affected_key.
     attempt (py_getitem resourcesAffected ''s3Object'') w1 (\<lambda>s3Object'.
     attempt (py_get s3Object' ''versionId'' PyNone) w1 (\<lambda>affected_version.
     if severity_score < SCORE_THRESHOLD cfg
     then (Inr (), add_metric ''TaggingSkipped'' 1 w1) else
     and_then
       (tag_object py cfg env severity_desc affected_bucket affected_key affected_version w1)
       (\<lambda>u. lifecycle_config cfg env affected_bucket affected_key)))))))))))))))))))"

text \<open>The loop of \<^verbatim>\<open>handler\<close>: an exception of one record ends it.\<close>

fun process_records ::
    "interpreter \<Rightarrow> tagger_config \<Rightarrow> s3_env \<Rightarrow> pyval list \<Rightarrow> world \<Rightarrow> (exn + unit) \<times> world" where
  "process_records py cfg env [] w = (Inr (), w)"
| "process_records py cfg env (record # records) w =
     and_then (process_record py cfg env record w)
       (\<lambda>u. process_records py cfg env records)"

text \<open>
  \<^verbatim>\<open>handler\<close>. Its two decorators catch nothing: they log the event and flush the
  metrics when the function is left.
\<close>

definition handler ::
    "interpreter \<Rightarrow> tagger_config \<Rightarrow> s3_env \<Rightarrow> pyval \<Rightarrow> world \<Rightarrow> (exn + unit) \<times> world" where
  "handler py cfg env event w =
     attempt (py_get event ''Records'' (PyList [])) w (\<lambda>records.
     attempt (py_len records) w (\<lambda>n.
     attempt (py_iter records) w (\<lambda>rs.
     process_records py cfg env rs w)))"

section \<open>The Notification Configurator: \<^verbatim>\<open>s3-events/lambda_handler.py\<close>\<close>

text \<open>
  \<^verbatim>\<open>put_bucket_notification\<close> logs a \<^verbatim>\<open>ClientError\<close> and raises it again; any other
  exception leaves the function as it is.
\<close>

definition put_bucket_notification ::
    "s3_env \<Rightarrow> pyval \<Rightarrow> pyval \<Rightarrow> world \<Rightarrow> (exn + unit) \<times> world" where
  "put_bucket_notification env bucket config w =
     (case client_call env put_bucket_notification_configuration
             [(''Bucket'', bucket), (''NotificationConfiguration'', config)] w of
        (Raises e, w1) \<Rightarrow> if e = ClientError then (Inl ClientError, w1) else (Inl e, w1)
      | (Response r, w1) \<Rightarrow> (Inr (), w1))"

definition create :: "s3_env \<Rightarrow> pyval \<Rightarrow> world \<Rightarrow> (exn + pyval) \<times> world" where
  "create env event w =
     attempt (py_get event ''ResourceProperties'' (PyDict [])) w (\<lambda>props.
     attempt (py_get props ''BucketName'' PyNone) w (\<lambda>bucket_name.
     if \<not> truthy bucket_name then (Inl ValueError, w) else
     attempt (py_get props ''NotificationConfiguration'' (PyDict [])) w (\<lambda>config.
     if \<not> truthy config then (Inl ValueError, w) else
     and_then (put_bucket_notification env bucket_name config w)
       (\<lambda>u w1. (Inr (PyStr ''ResultsNotifications''), w1)))))"

definition delete :: "s3_env \<Rightarrow> pyval \<Rightarrow> world \<Rightarrow> (exn + pyval) \<times> world" where
  "delete env event w =
     attempt (py_get event ''ResourceProperties'' (PyDict [])) w (\<lambda>props.
     attempt (py_get props ''BucketName'' PyNone) w (\<lambda>bucket_name.
     if \<not> truthy bucket_name then (Inl ValueError, w) else
     and_then (put_bucket_notification env bucket_name (PyDict []) w)
       (\<lambda>u w1. (Inr PyNone, w1))))"

text \<open>
  The decorators register \<open>create\<close> for the verbs create and update, and \<open>delete\<close> for
  delete; the lifecycle helper calls the function of the request's verb. What the
  helper then does with the value or the exception (it reports success, with the value
  as the resource's identifier, or failure to the provisioning system) is its own.
\<close>

datatype verb = Create | Update | Delete

fun configurator :: "verb \<Rightarrow> s3_env \<Rightarrow> pyval \<Rightarrow> world \<Rightarrow> (exn + pyval) \<times> world" where
  "configurator Create = create"
| "configurator Update = create"
| "configurator Delete = delete"

section \<open>The vocabulary of the properties\<close>

text \<open>
  \<open>lookup_path x ks\<close> is the value found by following the keys \<open>ks\<close> through nested
  dicts, from \<open>x\<close>; it is \<open>None\<close> when a key is absent or a value on the way is no dict.
\<close>

fun lookup_path :: "pyval \<Rightarrow> string list \<Rightarrow> pyval option" where
  "lookup_path x [] = Some x"
| "lookup_path (PyDict kvs) (k # ks) =
     (case map_of kvs k of None \<Rightarrow> None | Some y \<Rightarrow> lookup_path y ks)"
| "lookup_path PyNone (k # ks) = None"
| "lookup_path (PyBool b) (k # ks) = None"
| "lookup_path (PyInt i) (k # ks) = None"
| "lookup_path (PyFloat f) (k # ks) = None"
| "lookup_path (PyStr s) (k # ks) = None"
| "lookup_path (PyList xs) (k # ks) = None"

text \<open>The call that puts the notification configuration \<open>config\<close> on \<open>bucket\<close>.\<close>

definition put_notification :: "pyval \<Rightarrow> pyval \<Rightarrow> s3_call" where
  "put_notification bucket config =
     (put_bucket_notification_configuration,
      [(''Bucket'', bucket), (''NotificationConfiguration'', config)])"

subsection \<open>Examples\<close>

definition example_world :: world where
  "example_world = \<lparr>calls = [], metrics = []\<rparr>"

text \<open>A service that rejects every request, and one that accepts every request.\<close>

definition refusing :: s3_env where
  "refusing before c = Raises ClientError"

definition accepting :: s3_env where
  "accepting before c = Response (Parsed PyNone)"

definition example_request :: "(string \<times> pyval) list \<Rightarrow> pyval" where
  "example_request props =
     PyDict [(''RequestType'', PyStr ''Create''), (''ResourceProperties'', PyDict props)]"

definition example_notification :: pyval where
  "example_notification = PyDict [(''QueueConfigurations'', PyList [])]"

subsection \<open>The tagger's calls\<close>

text \<open>
  Where a record says its report is: the bucket, the decoded key and the version, as the
  first statements of \<^verbatim>\<open>process_record\<close> read them.
\<close>

definition report_location :: "pyval \<Rightarrow> exn + pyval \<times> pyval \<times> pyval" where
  "report_location rec =
     (case get3 rec ''s3'' ''bucket'' ''name'' of
        Inl e \<Rightarrow> Inl e
      | Inr bucket \<Rightarrow>
         (case get3 rec ''s3'' ''object'' ''key'' of
            Inl e \<Rightarrow> Inl e
          | Inr key0 \<Rightarrow>
             (case (if truthy key0 then py_unquote_plus key0 else Inr key0) of
                Inl e \<Rightarrow> Inl e
              | Inr key \<Rightarrow>
                 (case get3 rec ''s3'' ''object'' ''versionId'' of
                    Inl e \<Rightarrow> Inl e
                  | Inr version_id \<Rightarrow> Inr (bucket, key, version_id)))))"

text \<open>The \<^verbatim>\<open>get_object\<close> call for a location, and what \<^verbatim>\<open>get_json_object\<close> returns for it.\<close>

definition fetch_call :: "pyval \<times> pyval \<times> pyval \<Rightarrow> s3_call" where
  "fetch_call loc =
     (case loc of (bucket, key, version_id) \<Rightarrow>
        (get_object,
         [(''Bucket'', bucket), (''Key'', key)]
           @ (if truthy version_id then [(''VersionId'', version_id)] else [])))"

definition fetched :: "s3_env \<Rightarrow> world \<Rightarrow> pyval \<times> pyval \<times> pyval \<Rightarrow> pyval" where
  "fetched env w loc =
     (case answer env (calls w) (fetch_call loc) of
        Response (Parsed data) \<Rightarrow> data
      | _ \<Rightarrow> PyNone)"

text \<open>
  The \<^verbatim>\<open>put_object_tagging\<close> call for a description, a bucket, a key and a version, and
  the \<^verbatim>\<open>put_bucket_lifecycle_configuration\<close> call for a bucket and a key.
\<close>

definition tag_call ::
    "interpreter \<Rightarrow> tagger_config \<Rightarrow> pyval \<Rightarrow> pyval \<Rightarrow> pyval \<Rightarrow> pyval \<Rightarrow> s3_call" where
  "tag_call py cfg desc bucket key version_id =
     (put_object_tagging,
      [(''Bucket'', bucket), (''Key'', key),
       (''Tagging'',
          PyDict [(''TagSet'',
            PyList [PyDict [(''Key'', PyStr (TAG_KEY_NAME cfg)),
                            (''Value'', PyStr (py_str py desc))]])])]
        @ (if truthy version_id then [(''VersionId'', version_id)] else []))"

definition lifecycle_call :: "tagger_config \<Rightarrow> pyval \<Rightarrow> pyval \<Rightarrow> s3_call" where
  "lifecycle_call cfg bucket key =
     (put_bucket_lifecycle_configuration,
      [(''Bucket'', bucket),
       (''LifecycleConfiguration'',
          PyDict [(''Rules'',
            PyList [PyDict
              [(''Filter'', PyDict [(''Prefix'', key)]),
               (''Status'', PyStr ''Enabled''),
               (''NoncurrentVersionTransitions'',
                  PyList [PyDict [(''NoncurrentDays'', PyInt (GLACIER_TRANSITION_DAYS cfg)),
                                  (''StorageClass'', PyStr ''GLACIER'')]]),
               (''NoncurrentVersionExpiration'',
                  PyDict [(''NoncurrentDays'', PyInt (EXPIRE_OBJECTS_DAYS cfg))])]])])])"

definition called :: "s3_call \<Rightarrow> world \<Rightarrow> world" where
  "called c w = w\<lparr>calls := calls w @ [c]\<rparr>"

text \<open>\<^verbatim>\<open>resourcesAffected["s3Object"].get("versionId")\<close> of a report.\<close>

definition affected_version :: "pyval \<Rightarrow> pyval" where
  "affected_version data =
     (case lookup_path data [''detail'', ''resourcesAffected'', ''s3Object'', ''versionId''] of
        Some v \<Rightarrow> v | None \<Rightarrow> PyNone)"

text \<open>
  \<open>field x ks\<close> is the value at the path \<open>ks\<close>, or None. \<open>remediation py cfg data\<close> are
  the two put calls that the report \<open>data\<close> asks for: they are made of the report, the
  settings and \<^verbatim>\<open>str\<close> alone.
\<close>

definition field :: "pyval \<Rightarrow> string list \<Rightarrow> pyval" where
  "field x ks = (case lookup_path x ks of Some v \<Rightarrow> v | None \<Rightarrow> PyNone)"

definition remediation :: "interpreter \<Rightarrow> tagger_config \<Rightarrow> pyval \<Rightarrow> s3_call list" where
  "remediation py cfg data =
     [tag_call py cfg (field data [''detail'', ''severity'', ''description''])
        (field data [''detail'', ''resourcesAffected'', ''s3Bucket'', ''name''])
        (field data [''detail'', ''resourcesAffected'', ''s3Object'', ''key''])
        (affected_version data),
      lifecycle_call cfg
        (field data [''detail'', ''resourcesAffected'', ''s3Bucket'', ''name''])
        (field data [''detail'', ''resourcesAffected'', ''s3Object'', ''key''])]"

text \<open>
  The shape of a record of the event: the record is a dict, and each of \<open>s3\<close>,
  \<open>s3.bucket\<close> and \<open>s3.object\<close> is absent or a dict, each of \<open>s3.bucket.name\<close>,
  \<open>s3.object.key\<close> and \<open>s3.object.versionId\<close> absent or a str.
\<close>

fun is_dict :: "pyval \<Rightarrow> bool" where
  "is_dict (PyDict kvs) = True"
| "is_dict PyNone = False"
| "is_dict (PyBool b) = False"
| "is_dict (PyInt i) = False"
| "is_dict (PyFloat f) = False"
| "is_dict (PyStr s) = False"
| "is_dict (PyList xs) = False"

fun is_str :: "pyval \<Rightarrow> bool" where
  "is_str (PyStr s) = True"
| "is_str PyNone = False"
| "is_str (PyBool b) = False"
| "is_str (PyInt i) = False"
| "is_str (PyFloat f) = False"
| "is_str (PyList xs) = False"
| "is_str (PyDict kvs) = False"

definition absent_or :: "(pyval \<Rightarrow> bool) \<Rightarrow> pyval option \<Rightarrow> bool" where
  "absent_or P x = (case x of None \<Rightarrow> True | Some v \<Rightarrow> P v)"

definition envelope :: "pyval \<Rightarrow> bool" where
  "envelope rec =
     (is_dict rec
      \<and> absent_or is_dict (lookup_path rec [''s3''])
      \<and> absent_or is_dict (lookup_path rec [''s3'', ''bucket''])
      \<and> absent_or is_str (lookup_path rec [''s3'', ''bucket'', ''name''])
      \<and> absent_or is_dict (lookup_path rec [''s3'', ''object''])
      \<and> absent_or is_str (lookup_path rec [''s3'', ''object'', ''key''])
      \<and> absent_or is_str (lookup_path rec [''s3'', ''object'', ''versionId'']))"

text \<open>The exceptions that reading the severity score of a report can raise.\<close>

definition score_error :: "exn \<Rightarrow> bool" where
  "score_error e =
     (e = AttributeError \<or> e = KeyError \<or> e = TypeError \<or> e = ValueError \<or> e = OverflowError)"

subsection \<open>Examples for the tagger\<close>

text \<open>
  The scenario of the specification: a record for the report at bucket \<open>b\<close>, a report
  of a given score on the object \<open>secret.csv\<close> of bucket \<open>data\<close>, and the default
  settings. \<open>serving report puts\<close> is a service that returns the report for every
  \<^verbatim>\<open>get_object\<close> and answers \<open>puts\<close> to every other call; \<open>failing r\<close> answers \<open>r\<close> to
  every call.
\<close>

definition example_config :: tagger_config where
  "example_config =
     \<lparr>TAG_KEY_NAME = ''Severity'', SCORE_THRESHOLD = 3,
      GLACIER_TRANSITION_DAYS = 365, EXPIRE_OBJECTS_DAYS = 1825\<rparr>"

definition example_record :: "string \<Rightarrow> pyval" where
  "example_record key =
     PyDict [(''s3'', PyDict [(''bucket'', PyDict [(''name'', PyStr ''b'')]),
                              (''object'', PyDict [(''key'', PyStr key)])])]"

definition example_report :: "int \<Rightarrow> pyval" where
  "example_report score =
     PyDict [(''detail'', PyDict
       [(''severity'', PyDict [(''score'', PyInt score), (''description'', PyStr ''High'')]),
        (''resourcesAffected'', PyDict
           [(''s3Bucket'', PyDict [(''name'', PyStr ''data'')]),
            (''s3Object'', PyDict [(''key'', PyStr ''secret.csv'')])])])]"

definition report_without_resources :: pyval where
  "report_without_resources =
     PyDict [(''detail'', PyDict
       [(''severity'', PyDict [(''score'', PyInt 1), (''description'', PyStr ''Low'')])])]"

definition report_without_bucket :: "int \<Rightarrow> pyval" where
  "report_without_bucket score =
     PyDict [(''detail'', PyDict
       [(''severity'', PyDict [(''score'', PyInt score), (''description'', PyStr ''High'')]),
        (''resourcesAffected'', PyDict
           [(''s3Object'', PyDict [(''key'', PyStr ''secret.csv'')])])])]"

definition report_without_description :: "int \<Rightarrow> pyval" where
  "report_without_description score =
     PyDict [(''detail'', PyDict
       [(''severity'', PyDict [(''score'', PyInt score)]),
        (''resourcesAffected'', PyDict
           [(''s3Bucket'', PyDict [(''name'', PyStr ''data'')]),
            (''s3Object'', PyDict [(''key'', PyStr ''secret.csv'')])])])]"

definition serving :: "pyval \<Rightarrow> response \<Rightarrow> s3_env" where
  "serving report puts before c = (if fst c = get_object then Response (Parsed report) else puts)"

definition failing :: "response \<Rightarrow> s3_env" where
  "failing r before c = r"

text \<open>
  An interpreter with the default limit on the digits. The examples do not depend on
  the other two fields: their scores are ints and their descriptions are strs.
\<close>

definition example_interpreter :: interpreter where
  "example_interpreter =
     \<lparr>repr = (\<lambda>x. []), int_max_str_digits = 4300, int_unicode = (\<lambda>s. None)\<rparr>"

text \<open>A report of a finding without severity, and an event with the given records.\<close>

definition report_without_severity :: pyval where
  "report_without_severity = PyDict [(''detail'', PyDict [(''type'', PyStr ''Policy'')])]"

definition example_event :: "pyval list \<Rightarrow> pyval" where
  "example_event records = PyDict [(''Records'', PyList records)]"

text \<open>A record that names a bucket but no object.\<close>

definition record_without_key :: pyval where
  "record_without_key = PyDict [(''s3'', PyDict [(''bucket'', PyDict [(''name'', PyStr ''b'')])])]"

text \<open>
  Two records without a bucket's name that are not of the event's shape: the bucket is
  a str in the first, the key is an int in the second.
\<close>

definition record_with_bucket_str :: pyval where
  "record_with_bucket_str = PyDict [(''s3'', PyDict [(''bucket'', PyStr ''x'')])]"

definition record_with_key_int :: pyval where
  "record_with_key_int = PyDict [(''s3'', PyDict [(''object'', PyDict [(''key'', PyInt 5)])])]"

section \<open>Properties of the Classification Tagger\<close>

subsection \<open>The steps of \<^verbatim>\<open>process_record\<close>\<close>

text \<open>
  What each function of the tagger leaves behind, in the vocabulary above; then the
  paths through \<open>process_record\<close>: an empty report, a report with all its fields, a
  report without a readable score, and the calls of any record.
\<close>

lemma lookup_path_step:
  "lookup_path x (k # ks) = Some v \<Longrightarrow>
     \<exists>kvs y. x = PyDict kvs \<and> map_of kvs k = Some y \<and> lookup_path y ks = Some v"
  by (cases x) (simp_all split: option.splits)

lemma map_of_Some_truthy: "map_of kvs k = Some y \<Longrightarrow> truthy (PyDict kvs)"
  by auto

lemma attempt_case:
  "attempt r w k = (case r of Inl e \<Rightarrow> (Inl e, w) | Inr x \<Rightarrow> k x)"
  by (cases r) simp_all

lemma get_json_object_result:
  "get_json_object env bucket key version_id w =
     (fetched env w (bucket, key, version_id),
      w\<lparr>calls := calls w @ [fetch_call (bucket, key, version_id)]\<rparr>)"
  by (simp add: get_json_object_def client_call_def fetch_call_def fetched_def Let_def
      split: response.splits payload.splits)

lemma tag_object_result:
  "tag_object py cfg env desc bucket key version_id w =
     (case answer env (calls w) (tag_call py cfg desc bucket key version_id) of
        Raises e \<Rightarrow>
          if e = ClientError
          then (Inr (), add_metric ''TaggingFailed'' 1
                  (called (tag_call py cfg desc bucket key version_id) w))
          else (Inl e, called (tag_call py cfg desc bucket key version_id) w)
      | Response r \<Rightarrow>
          (Inr (), add_metric ''TaggingSuccess'' 1
             (called (tag_call py cfg desc bucket key version_id) w)))"
  by (simp add: tag_object_def client_call_def tag_call_def called_def Let_def
      split: response.splits)

lemma lifecycle_config_result:
  "lifecycle_config cfg env bucket key w =
     (case answer env (calls w) (lifecycle_call cfg bucket key) of
        Raises e \<Rightarrow>
          if e = ClientError then (Inr (), called (lifecycle_call cfg bucket key) w)
          else (Inl e, called (lifecycle_call cfg bucket key) w)
      | Response r \<Rightarrow> (Inr (), called (lifecycle_call cfg bucket key) w))"
  by (simp add: lifecycle_config_def client_call_def lifecycle_call_def called_def Let_def
      split: response.splits)

lemma fetched_Parsed:
  "answer env (calls w) (fetch_call loc) = Response (Parsed data) \<Longrightarrow> fetched env w loc = data"
  by (simp add: fetched_def)

lemma fetched_failed:
  "(case answer env (calls w) (fetch_call loc) of
      Response (Parsed data) \<Rightarrow> False | _ \<Rightarrow> True) \<Longrightarrow> fetched env w loc = PyNone"
  by (simp add: fetched_def split: response.splits payload.splits)

lemma report_locationD:
  assumes "report_location rec = Inr (bucket, key, version_id)"
  shows "\<exists>key0. get3 rec ''s3'' ''bucket'' ''name'' = Inr bucket
          \<and> get3 rec ''s3'' ''object'' ''key'' = Inr key0
          \<and> (if truthy key0 then py_unquote_plus key0 else Inr key0) = Inr key
          \<and> get3 rec ''s3'' ''object'' ''versionId'' = Inr version_id"
  using assms by (auto simp: report_location_def split: sum.splits if_splits)

lemma process_record_empty:
  assumes "report_location rec = Inr loc" and "\<not> truthy (fetched env w loc)"
  shows "process_record py cfg env rec w =
     (Inr (), w\<lparr>calls := calls w @ [fetch_call loc], metrics := metrics w @ [(''EmptyObject'', 1)]\<rparr>)"
proof -
  obtain bucket key version_id where loc: "loc = (bucket, key, version_id)"
    by (cases loc) auto
  from report_locationD[OF assms(1)[unfolded loc]] obtain key0 where
    "get3 rec ''s3'' ''bucket'' ''name'' = Inr bucket"
    "get3 rec ''s3'' ''object'' ''key'' = Inr key0"
    "(if truthy key0 then py_unquote_plus key0 else Inr key0) = Inr key"
    "get3 rec ''s3'' ''object'' ''versionId'' = Inr version_id"
    by blast
  with assms(2) show ?thesis
    unfolding process_record_def loc
    by (simp add: get_json_object_result add_metric_def)
qed

lemma process_record_finding:
  assumes loc: "report_location rec = Inr loc"
    and data: "fetched env w loc = data"
    and score: "lookup_path data [''detail'', ''severity'', ''score''] = Some sc"
      "py_int py sc = Inr s"
    and desc: "lookup_path data [''detail'', ''severity'', ''description''] = Some desc"
    and bucket: "lookup_path data [''detail'', ''resourcesAffected'', ''s3Bucket'', ''name''] = Some ab"
    and key: "lookup_path data [''detail'', ''resourcesAffected'', ''s3Object'', ''key''] = Some ak"
  shows "process_record py cfg env rec w =
     (if s < SCORE_THRESHOLD cfg
      then (Inr (), add_metric ''TaggingSkipped'' 1 (called (fetch_call loc) w))
      else and_then
             (tag_object py cfg env desc ab ak (affected_version data) (called (fetch_call loc) w))
             (\<lambda>u. lifecycle_config cfg env ab ak))"
proof -
  obtain b k v where l: "loc = (b, k, v)"
    by (cases loc) auto
  from report_locationD[OF loc[unfolded l]] obtain key0 where r:
    "get3 rec ''s3'' ''bucket'' ''name'' = Inr b"
    "get3 rec ''s3'' ''object'' ''key'' = Inr key0"
    "(if truthy key0 then py_unquote_plus key0 else Inr key0) = Inr k"
    "get3 rec ''s3'' ''object'' ''versionId'' = Inr v"
    by blast
  from lookup_path_step[OF score(1)] obtain d dv where
    d: "data = PyDict d" "map_of d ''detail'' = Some dv"
      "lookup_path dv [''severity'', ''score''] = Some sc"
    by blast
  from lookup_path_step[OF d(3)] obtain dd sv where
    dd: "dv = PyDict dd" "map_of dd ''severity'' = Some sv" "lookup_path sv [''score''] = Some sc"
    by blast
  from lookup_path_step[OF dd(3)] obtain sd where
    sd: "sv = PyDict sd" "map_of sd ''score'' = Some sc"
    by auto
  from desc d dd sd have de: "map_of sd ''description'' = Some desc"
    by (simp split: option.splits)
  from bucket d dd have "lookup_path (PyDict dd) [''resourcesAffected'', ''s3Bucket'', ''name''] = Some ab"
    by simp
  from lookup_path_step[OF this] obtain rv where
    rv: "map_of dd ''resourcesAffected'' = Some rv" "lookup_path rv [''s3Bucket'', ''name''] = Some ab"
    by auto
  from lookup_path_step[OF rv(2)] obtain rd bv where
    rd: "rv = PyDict rd" "map_of rd ''s3Bucket'' = Some bv" "lookup_path bv [''name''] = Some ab"
    by blast
  from lookup_path_step[OF rd(3)] obtain bd where
    bd: "bv = PyDict bd" "map_of bd ''name'' = Some ab"
    by auto
  from key d dd rv rd have "lookup_path (PyDict rd) [''s3Object'', ''key''] = Some ak"
    by simp
  from lookup_path_step[OF this] obtain ov where
    ov: "map_of rd ''s3Object'' = Some ov" "lookup_path ov [''key''] = Some ak"
    by auto
  from lookup_path_step[OF ov(2)] obtain od where
    od: "ov = PyDict od" "map_of od ''key'' = Some ak"
    by auto
  have av: "affected_version (PyDict d) = (case map_of od ''versionId'' of Some x \<Rightarrow> x | None \<Rightarrow> PyNone)"
    using d(2) dd rv rd ov od by (simp add: affected_version_def split: option.splits)
  have t: "truthy data" "truthy rv"
    using d rd map_of_Some_truthy by blast+
  show ?thesis
    unfolding process_record_def l
    using r data[unfolded l] t d(2) dd(2) sd(2) score(2) de rv(1) rd(2) bd(2) ov(1) od(2)
    by (simp add: get_json_object_result d(1) dd(1) sd(1) rd(1) bd(1) od(1) av called_def)
qed

lemma process_record_scored_calls:
  assumes loc: "report_location rec = Inr loc"
    and data: "fetched env w loc = data"
    and score: "lookup_path data [''detail'', ''severity'', ''score''] = Some sc"
      "py_int py sc = Inr s"
    and below: "s < SCORE_THRESHOLD cfg"
  shows "calls (snd (process_record py cfg env rec w)) = calls w @ [fetch_call loc]"
proof -
  obtain b k v where l: "loc = (b, k, v)"
    by (cases loc) auto
  from report_locationD[OF loc[unfolded l]] obtain key0 where r:
    "get3 rec ''s3'' ''bucket'' ''name'' = Inr b"
    "get3 rec ''s3'' ''object'' ''key'' = Inr key0"
    "(if truthy key0 then py_unquote_plus key0 else Inr key0) = Inr k"
    "get3 rec ''s3'' ''object'' ''versionId'' = Inr v"
    by blast
  from lookup_path_step[OF score(1)] obtain d dv where
    d: "data = PyDict d" "map_of d ''detail'' = Some dv"
      "lookup_path dv [''severity'', ''score''] = Some sc"
    by blast
  from lookup_path_step[OF d(3)] obtain dd sv where
    dd: "dv = PyDict dd" "map_of dd ''severity'' = Some sv" "lookup_path sv [''score''] = Some sc"
    by blast
  from lookup_path_step[OF dd(3)] obtain sd where
    sd: "sv = PyDict sd" "map_of sd ''score'' = Some sc"
    by auto
  have t: "truthy data"
    using d map_of_Some_truthy by blast
  show ?thesis
    unfolding process_record_def l
    using r data[unfolded l] t d(2) dd(2) sd(2) score(2) below
    by (simp add: get_json_object_result d(1) dd(1) sd(1) attempt_case add_metric_def
        split: sum.splits)
qed

lemma process_record_remediates:
  assumes "report_location rec = Inr loc"
    and "fetched env w loc = data"
    and "lookup_path data [''detail'', ''severity'', ''score''] = Some sc"
    and "py_int py sc = Inr s"
    and "lookup_path data [''detail'', ''severity'', ''description''] = Some desc"
    and "lookup_path data [''detail'', ''resourcesAffected'', ''s3Bucket'', ''name''] = Some ab"
    and "lookup_path data [''detail'', ''resourcesAffected'', ''s3Object'', ''key''] = Some ak"
    and "SCORE_THRESHOLD cfg \<le> s"
  shows "calls (snd (process_record py cfg env rec w)) =
     calls w @ [fetch_call loc, tag_call py cfg desc ab ak (affected_version data)] @
       (case answer env (calls w @ [fetch_call loc])
               (tag_call py cfg desc ab ak (affected_version data)) of
          Raises e \<Rightarrow> if e = ClientError then [lifecycle_call cfg ab ak] else []
        | Response r \<Rightarrow> [lifecycle_call cfg ab ak])"
  using process_record_finding[where py = py and cfg = cfg, OF assms(1-7)] assms(8)
  by (simp add: tag_object_result lifecycle_config_result called_def add_metric_def
      split: response.splits)

lemma py_get_lookup:
  "ks \<noteq> [] \<Longrightarrow>
     py_get x k (PyDict []) = Inl AttributeError
     \<or> (\<exists>y. py_get x k (PyDict []) = Inr y \<and> lookup_path x (k # ks) = lookup_path y ks)"
  by (cases x; cases ks) (simp_all split: option.splits)

lemma py_getitem_lookup:
  "(py_getitem x k = Inl KeyError \<or> py_getitem x k = Inl TypeError)
      \<and> lookup_path x (k # ks) = None
   \<or> (\<exists>y. py_getitem x k = Inr y \<and> lookup_path x (k # ks) = lookup_path y ks)"
  by (cases x) (simp_all split: option.splits)

lemma py_int_raises:
  "py_int py x = Inl e \<Longrightarrow> e = TypeError \<or> e = ValueError \<or> e = OverflowError"
  by (cases "(py, x)" rule: py_int.cases) (simp_all split: option.splits)

lemma process_record_unscored:
  assumes loc: "report_location rec = Inr loc"
    and data: "fetched env w loc = data" "truthy data"
    and bad: "case lookup_path data [''detail'', ''severity'', ''score''] of
                None \<Rightarrow> True
              | Some sc \<Rightarrow> (case py_int py sc of Inl e \<Rightarrow> True | Inr i \<Rightarrow> False)"
  shows "\<exists>e. score_error e
           \<and> process_record py cfg env rec w = (Inl e, w\<lparr>calls := calls w @ [fetch_call loc]\<rparr>)"
proof -
  obtain b k v where l: "loc = (b, k, v)"
    by (cases loc) auto
  from report_locationD[OF loc[unfolded l]] obtain key0 where r:
    "get3 rec ''s3'' ''bucket'' ''name'' = Inr b"
    "get3 rec ''s3'' ''object'' ''key'' = Inr key0"
    "(if truthy key0 then py_unquote_plus key0 else Inr key0) = Inr k"
    "get3 rec ''s3'' ''object'' ''versionId'' = Inr v"
    by blast
  note unfold = process_record_def get_json_object_result score_error_def
  from py_get_lookup[of "[''severity'', ''score'']" data "''detail''"]
  consider "py_get data ''detail'' (PyDict []) = Inl AttributeError"
    | dv where "py_get data ''detail'' (PyDict []) = Inr dv"
        "lookup_path data [''detail'', ''severity'', ''score''] = lookup_path dv [''severity'', ''score'']"
    by auto
  then show ?thesis
  proof cases
    case 1
    with r data[unfolded l] show ?thesis
      unfolding l by (simp add: unfold)
  next
    case dv: 2
    from py_getitem_lookup[of dv "''severity''" "[''score'']"]
    consider "py_getitem dv ''severity'' = Inl KeyError \<or> py_getitem dv ''severity'' = Inl TypeError"
      | sv where "py_getitem dv ''severity'' = Inr sv"
          "lookup_path dv [''severity'', ''score''] = lookup_path sv [''score'']"
      by auto
    then show ?thesis
    proof cases
      case 1
      with r data[unfolded l] dv(1) show ?thesis
        unfolding l by (elim disjE; simp add: unfold)
    next
      case sv: 2
      from py_getitem_lookup[of sv "''score''" "[]"]
      consider "py_getitem sv ''score'' = Inl KeyError \<or> py_getitem sv ''score'' = Inl TypeError"
        | sc where "py_getitem sv ''score'' = Inr sc" "lookup_path sv [''score''] = Some sc"
        by auto
      then show ?thesis
      proof cases
        case 1
        with r data[unfolded l] dv(1) sv(1) show ?thesis
          unfolding l by (elim disjE; simp add: unfold)
      next
        case sc: 2
        with bad dv(2) sv(2) obtain e where e: "py_int py sc = Inl e"
          by (auto split: sum.splits)
        from py_int_raises[OF e] r data[unfolded l] dv(1) sv(1) sc(1) e show ?thesis
          unfolding l by (elim disjE; simp add: unfold)
      qed
    qed
  qed
qed

lemma process_records_append:
  "process_records py cfg env (xs @ ys) w =
     and_then (process_records py cfg env xs w) (\<lambda>u. process_records py cfg env ys)"
proof (induction xs arbitrary: w)
  case Nil
  show ?case by simp
next
  case (Cons x xs)
  obtain r w1 where step: "process_record py cfg env x w = (r, w1)"
    by (cases "process_record py cfg env x w") auto
  show ?case
    by (cases r) (simp_all add: step Cons.IH)
qed

lemma handler_records:
  assumes "lookup_path event [''Records''] = Some (PyList rs)"
  shows "handler py cfg env event w = process_records py cfg env rs w"
proof -
  from lookup_path_step[OF assms] obtain ev where
    "event = PyDict ev" "map_of ev ''Records'' = Some (PyList rs)"
    by auto
  then show ?thesis
    by (simp add: handler_def)
qed

lemma attemptI:
  "(\<And>e. r = Inl e \<Longrightarrow> P (Inl e, w)) \<Longrightarrow> (\<And>x. r = Inr x \<Longrightarrow> P (k x)) \<Longrightarrow> P (attempt r w k)"
  by (cases r) simp_all

lemma ifI: "(c \<Longrightarrow> P a) \<Longrightarrow> (\<not> c \<Longrightarrow> P b) \<Longrightarrow> P (if c then a else b)"
  by simp

lemma lookup_get:
  "py_get x k (PyDict []) = Inr y \<Longrightarrow> lookup_path y (k' # ks) = Some v
     \<Longrightarrow> lookup_path x (k # k' # ks) = Some v"
  by (cases x) (auto split: option.splits)

lemma lookup_getitem:
  "py_getitem x k = Inr y \<Longrightarrow> lookup_path y ks = Some v \<Longrightarrow> lookup_path x (k # ks) = Some v"
  by (cases x) (auto split: option.splits)

lemma process_record_tail:
  assumes loc: "report_location rec = Inr loc"
    and data: "fetched env w loc = data" "truthy data"
  shows "calls (snd (process_record py cfg env rec w)) = calls w @ [fetch_call loc]
    \<or> (\<exists>sc s desc ab ak.
          lookup_path data [''detail'', ''severity'', ''score''] = Some sc
          \<and> py_int py sc = Inr s
          \<and> lookup_path data [''detail'', ''severity'', ''description''] = Some desc
          \<and> lookup_path data [''detail'', ''resourcesAffected'', ''s3Bucket'', ''name''] = Some ab
          \<and> lookup_path data [''detail'', ''resourcesAffected'', ''s3Object'', ''key''] = Some ak)"
proof -
  obtain b k v where l: "loc = (b, k, v)"
    by (cases loc) auto
  from report_locationD[OF loc[unfolded l]] obtain key0 where r:
    "get3 rec ''s3'' ''bucket'' ''name'' = Inr b"
    "get3 rec ''s3'' ''object'' ''key'' = Inr key0"
    "(if truthy key0 then py_unquote_plus key0 else Inr key0) = Inr k"
    "get3 rec ''s3'' ''object'' ''versionId'' = Inr v"
    by blast
  define P where "P = (\<lambda>res :: (exn + unit) \<times> world.
    calls (snd res) = calls w @ [fetch_call (b, k, v)]
    \<or> (\<exists>sc s desc ab ak.
          lookup_path data [''detail'', ''severity'', ''score''] = Some sc
          \<and> py_int py sc = Inr s
          \<and> lookup_path data [''detail'', ''severity'', ''description''] = Some desc
          \<and> lookup_path data [''detail'', ''resourcesAffected'', ''s3Bucket'', ''name''] = Some ab
          \<and> lookup_path data [''detail'', ''resourcesAffected'', ''s3Object'', ''key''] = Some ak))"
  have raised: "P (Inl e, w\<lparr>calls := calls w @ [fetch_call (b, k, v)]\<rparr>)" for e
    by (simp add: P_def)
  have "P (process_record py cfg env rec w)"
    unfolding process_record_def
    using r data[unfolded l]
    apply (simp add: get_json_object_result)
    apply (rule attemptI, rule raised)
    apply (rule attemptI, rule raised)
    apply (rule attemptI, rule raised)
    apply (rule attemptI, rule raised)
    apply (rule attemptI, rule raised)
    apply (rule attemptI, rule raised)
    apply (rule attemptI, rule raised)
    apply (rule ifI, simp add: P_def add_metric_def)
    apply (rule attemptI, rule raised)
    apply (rule attemptI, rule raised)
    apply (rule attemptI, rule raised)
    apply (rule attemptI, rule raised)
    apply (rule attemptI, rule raised)
    apply (rule attemptI, rule raised)
    unfolding P_def
    apply (rule disjI2)
    apply (intro exI conjI)
        apply (blast intro: lookup_get lookup_getitem lookup_path.simps(1))
       apply assumption
      apply (blast intro: lookup_get lookup_getitem lookup_path.simps(1))
     apply (blast intro: lookup_get lookup_getitem lookup_path.simps(1))
    apply (blast intro: lookup_get lookup_getitem lookup_path.simps(1))
    done
  then show ?thesis
    by (simp add: l P_def)
qed

lemma process_record_calls:
  assumes loc: "report_location rec = Inr loc"
  shows "\<exists>n. calls (snd (process_record py cfg env rec w)) =
           calls w @ fetch_call loc # take n (remediation py cfg (fetched env w loc))"
proof (cases "truthy (fetched env w loc)")
  case False
  from process_record_empty[where py = py and cfg = cfg, OF loc False] show ?thesis
    by (intro exI[of _ 0]) simp
next
  case True
  from process_record_tail[where py = py and cfg = cfg, OF loc refl True]
  show ?thesis
  proof (elim disjE exE conjE)
    assume "calls (snd (process_record py cfg env rec w)) = calls w @ [fetch_call loc]"
    then show ?thesis
      by (intro exI[of _ 0]) simp
  next
    fix sc s desc ab ak
    assume f: "lookup_path (fetched env w loc) [''detail'', ''severity'', ''score''] = Some sc"
      "py_int py sc = Inr s"
      "lookup_path (fetched env w loc) [''detail'', ''severity'', ''description''] = Some desc"
      "lookup_path (fetched env w loc) [''detail'', ''resourcesAffected'', ''s3Bucket'', ''name'']
         = Some ab"
      "lookup_path (fetched env w loc) [''detail'', ''resourcesAffected'', ''s3Object'', ''key'']
         = Some ak"
    note p = process_record_finding[where py = py and cfg = cfg, OF loc refl f]
    have rem: "remediation py cfg (fetched env w loc) =
        [tag_call py cfg desc ab ak (affected_version (fetched env w loc)),
         lifecycle_call cfg ab ak]"
      by (simp add: remediation_def field_def f)
    show ?thesis
    proof (cases "s < SCORE_THRESHOLD cfg")
      case True
      with p show ?thesis
        by (intro exI[of _ 0]) (simp add: add_metric_def called_def)
    next
      case False
      show ?thesis
      proof (cases "answer env (calls w @ [fetch_call loc])
          (tag_call py cfg desc ab ak (affected_version (fetched env w loc)))")
        case (Raises e)
        show ?thesis
        proof (cases "e = ClientError")
          case True
          with p False Raises show ?thesis
            by (intro exI[of _ 2])
               (simp add: rem tag_object_result lifecycle_config_result called_def add_metric_def
                  split: response.splits)
        next
          case ne: False
          with p False Raises show ?thesis
            by (intro exI[of _ 1]) (simp add: rem tag_object_result called_def)
        qed
      next
        case (Response r)
        with p False show ?thesis
          by (intro exI[of _ 2])
             (simp add: rem tag_object_result lifecycle_config_result called_def add_metric_def
                split: response.splits)
      qed
    qed
  qed
qed

lemma get3_field:
  assumes "is_dict x" "absent_or is_dict (lookup_path x [a])"
    "absent_or is_dict (lookup_path x [a, b])"
  shows "get3 x a b c = Inr (field x [a, b, c])"
proof -
  from assms(1) obtain kx where x: "x = PyDict kx"
    by (cases x) auto
  show ?thesis
  proof (cases "map_of kx a")
    case None
    with x show ?thesis
      by (simp add: get3_def field_def)
  next
    case y: (Some y)
    with assms(2) x obtain ky where ky: "y = PyDict ky"
      by (cases y) (auto simp: absent_or_def)
    show ?thesis
    proof (cases "map_of ky b")
      case None
      with x y ky show ?thesis
        by (simp add: get3_def field_def)
    next
      case (Some z)
      with assms(3) x y ky obtain kz where "z = PyDict kz"
        by (cases z) (auto simp: absent_or_def)
      with x y ky Some show ?thesis
        by (simp add: get3_def field_def split: option.splits)
    qed
  qed
qed

lemma envelope_location:
  assumes "envelope rec"
  shows "report_location rec =
     Inr (field rec [''s3'', ''bucket'', ''name''],
          (case lookup_path rec [''s3'', ''object'', ''key''] of
             Some (PyStr key) \<Rightarrow> PyStr (if key = [] then [] else unquote_plus key)
           | _ \<Rightarrow> PyNone),
          field rec [''s3'', ''object'', ''versionId''])"
proof -
  from assms have g:
    "get3 rec ''s3'' ''bucket'' ''name'' = Inr (field rec [''s3'', ''bucket'', ''name''])"
    "get3 rec ''s3'' ''object'' ''key'' = Inr (field rec [''s3'', ''object'', ''key''])"
    "get3 rec ''s3'' ''object'' ''versionId'' = Inr (field rec [''s3'', ''object'', ''versionId''])"
    by (simp_all add: envelope_def get3_field)
  from assms have "absent_or is_str (lookup_path rec [''s3'', ''object'', ''key''])"
    by (simp add: envelope_def)
  then show ?thesis
    unfolding report_location_def g
    by (cases "lookup_path rec [''s3'', ''object'', ''key'']")
       (auto simp: field_def absent_or_def elim: is_str.elims)
qed

lemma default_threshold:
  "environ ''SCORE_THRESHOLD'' = None \<Longrightarrow> load_config py environ = Inr c \<Longrightarrow> SCORE_THRESHOLD c = 3"
  by (auto simp: load_config_def getenv_int_def getenv_def Let_def split: if_splits sum.splits)

subsection \<open>The example scenario\<close>

text \<open>
  \<^verbatim>\<open>int\<close> on some scores, whatever the interpreter: a str of digits, with white space,
  a sign and an underscore; a str with the character 28 in front, which is no white
  space for \<^verbatim>\<open>int\<close>; an underscore at the end; a float.
\<close>

lemma py_int_examples:
  "py_int py (PyStr ''5'') = Inr 5"
  "py_int py (PyStr '' -1_000 '') = Inr (- 1000)"
  "py_int py (PyStr ''5_'') = Inl ValueError"
  "py_int py (PyStr ''high'') = Inl ValueError"
  by (simp_all add: int_of_str_def over_limit_def int_of_string_def strip_def py_isspace_def
      parse_unsigned_def is_digit_def digit_value_def is_ascii_def)

lemma py_int_separator: "py_int py (PyStr [char_of (28 :: nat), CHR ''5'']) = Inl ValueError"
proof -
  have "char_of (28 :: nat) \<noteq> CHR ''+''" "char_of (28 :: nat) \<noteq> CHR ''-''"
    by code_simp+
  then show ?thesis
    by (simp add: int_of_str_def over_limit_def int_of_string_def strip_def py_isspace_def
        parse_unsigned_def is_digit_def digit_value_def is_ascii_def)
qed

lemma py_int_float: "py_int py (PyFloat (Finite (- 7 / 2))) = Inr (- 3)"
proof -
  have "\<lfloor>7 / 2 :: rat\<rfloor> = 3"
    by code_simp
  then show ?thesis
    by simp
qed

text \<open>
  With the default limit, a str of more than 4300 digits is no integer; and what a str
  with a character outside ASCII gives is the interpreter's.
\<close>

lemma py_int_limit:
  assumes "int_max_str_digits py = 4300" and "4300 < n"
  shows "py_int py (PyStr (replicate n CHR ''1'')) = Inl ValueError"
  using assms
  by (simp add: int_of_str_def over_limit_def is_digit_def is_ascii_def list_all_iff)

lemma py_int_unicode:
  "\<not> is_ascii c \<Longrightarrow>
     py_int py (PyStr (c # cs)) =
       (case int_unicode py (c # cs) of Some i \<Rightarrow> Inr i | None \<Rightarrow> Inl ValueError)"
  by (simp add: int_of_str_def)

text \<open>The examples, evaluated.\<close>

lemma example_key_decoded: "unquote_plus ''f%2Bx.json'' = ''f+x.json''"
  by code_simp

text \<open>
  An escaped two-byte character, a byte and a cut sequence that are no UTF-8 (each
  becomes U+FFFD), and an escape that lacks a digit.
\<close>

lemma unquote_plus_examples:
  "unquote_plus ''%C3%A9'' = [char_of (195 :: nat), char_of (169 :: nat)]"
  "unquote_plus ''%FF'' = replacement"
  "unquote_plus ''%E2%82'' = replacement"
  "unquote_plus ''a%2'' = ''a%2''"
  by code_simp+

lemma example_default_config: "load_config py Map.empty = Inr example_config"
  by (simp add: load_config_def getenv_int_def getenv_def example_config_def)

lemma example_location: "report_location (example_record ''f%2Bx.json'') = Inr (PyStr ''b'', PyStr ''f+x.json'', PyNone)"
  by (simp add: report_location_def example_record_def get3_def example_key_decoded)

lemma example_report_fields:
  "lookup_path (example_report n) [''detail'', ''severity'', ''score''] = Some (PyInt n)"
  "lookup_path (example_report n) [''detail'', ''severity'', ''description''] = Some (PyStr ''High'')"
  "lookup_path (example_report n) [''detail'', ''resourcesAffected'', ''s3Bucket'', ''name'']
     = Some (PyStr ''data'')"
  "lookup_path (example_report n) [''detail'', ''resourcesAffected'', ''s3Object'', ''key'']
     = Some (PyStr ''secret.csv'')"
  "affected_version (example_report n) = PyNone"
  by (simp_all add: example_report_def affected_version_def)

lemma example_fetch:
  "answer (serving report puts) before (fetch_call (PyStr ''b'', PyStr ''f+x.json'', PyNone))
     = Response (Parsed report)"
  by (simp add: answer_def serving_def fetch_call_def accepted_def)

subsection \<open>Decoding a key\<close>

text \<open>
  An ASCII character that is neither \<^verbatim>\<open>%\<close> nor a hexadecimal digit, and the escape
  \<^verbatim>\<open>%2B\<close>, are decoded on their own: what stands before and after them is decoded as
  if they were not there. This holds for the escapes, for the UTF-8 sequences and for
  the runs in turn.
\<close>

lemma char_of_43: "char_of (43 :: nat) = CHR ''+''"
  by code_simp

lemma hex_value_2B: "hex_value CHR ''2'' = Some 2" "hex_value CHR ''B'' = Some 11"
  "char_of (16 * 2 + 11 :: nat) = CHR ''+''" "hex_value CHR ''%'' = None" "hex_value CHR '' '' = None"
  by (simp_all add: hex_value_def char_of_43)

lemma unquote_to_bytes_Cons:
  "c \<noteq> CHR ''%'' \<Longrightarrow> unquote_to_bytes (c # y) = c # unquote_to_bytes y"
  by (cases "c # y" rule: unquote_to_bytes.cases) auto

lemma unquote_to_bytes_percent:
  "hex_value h = None \<Longrightarrow> unquote_to_bytes (CHR ''%'' # h # y) = CHR ''%'' # unquote_to_bytes (h # y)"
  by (cases y) auto

lemma unquote_to_bytes_sep:
  assumes "c \<noteq> CHR ''%''" "hex_value c = None"
  shows "unquote_to_bytes (x @ c # y) = unquote_to_bytes x @ c # unquote_to_bytes y"
  using assms
  apply (induction x rule: unquote_to_bytes.induct)
     apply (simp split: option.splits)
    apply (simp add: unquote_to_bytes_Cons)
  subgoal for c0
    by (cases "c0 = CHR ''%''") (simp_all add: unquote_to_bytes_Cons unquote_to_bytes_percent)
  subgoal for c0 h0
    by (cases "c0 = CHR ''%''"; cases "h0 = CHR ''%''")
       (simp_all add: unquote_to_bytes_Cons unquote_to_bytes_percent split: option.splits)
  done

lemma unquote_to_bytes_2B:
  "unquote_to_bytes (x @ ''%2B'' @ y) = unquote_to_bytes x @ ''+'' @ unquote_to_bytes y"
  apply (induction x rule: unquote_to_bytes.induct)
     apply (simp split: option.splits)
    apply (simp add: hex_value_2B char_of_43)
  subgoal for c0
    by (cases "c0 = CHR ''%''") (simp_all add: hex_value_2B char_of_43)
  subgoal for c0 h0
    by (cases "c0 = CHR ''%''"; cases "h0 = CHR ''%''")
       (simp_all add: hex_value_2B char_of_43 split: option.splits)
  done

lemma ascii_facts:
  "is_ascii c \<Longrightarrow> \<not> continuation c" "is_ascii c \<Longrightarrow> \<not> second_ok n c"
  by (simp_all add: is_ascii_def continuation_def second_ok_def Let_def)

lemma first_sequence_ascii: "is_ascii c \<Longrightarrow> first_sequence c cs = (0, True)"
  by (simp add: first_sequence_def is_ascii_def)

lemma first_sequence_sep:
  assumes "is_ascii c"
  shows "first_sequence c0 (cs @ c # y) = first_sequence c0 cs
    \<and> fst (first_sequence c0 cs) \<le> length cs"
proof (cases cs)
  case Nil
  then show ?thesis
    by (simp add: first_sequence_def Let_def ascii_facts[OF assms])
next
  case c2: (Cons c2 r2)
  show ?thesis
  proof (cases r2)
    case Nil
    with c2 show ?thesis
      by (simp add: first_sequence_def Let_def ascii_facts[OF assms])
  next
    case c3: (Cons c3 r3)
    show ?thesis
    proof (cases r3)
      case Nil
      with c2 c3 show ?thesis
        by (simp add: first_sequence_def Let_def ascii_facts[OF assms])
    next
      case (Cons c4 r4)
      with c2 c3 show ?thesis
        by (simp add: first_sequence_def Let_def)
    qed
  qed
qed

lemma utf8_replace_sep:
  assumes "is_ascii c"
  shows "utf8_replace (x @ c # y) = utf8_replace x @ c # utf8_replace y"
proof (induction x rule: utf8_replace.induct)
  case 1
  from assms show ?case
    by (simp add: first_sequence_ascii)
next
  case (2 c0 cs)
  obtain k ok where s: "first_sequence c0 cs = (k, ok)"
    by (cases "first_sequence c0 cs") auto
  with first_sequence_sep[OF assms, of c0 cs y]
  have s': "first_sequence c0 (cs @ c # y) = (k, ok)" "k \<le> length cs"
    by simp_all
  from 2[OF s[symmetric]] s s' show ?case
    by simp
qed

lemma utf8_replace_ascii: "\<forall>c\<in>set x. is_ascii c \<Longrightarrow> utf8_replace x = x"
  by (induction x) (simp_all add: first_sequence_ascii)

lemma unquote_runs_split:
  assumes "\<forall>c\<in>set p. is_ascii c"
  shows "unquote_runs (p @ q) =
     utf8_replace (unquote_to_bytes (p @ takeWhile is_ascii q)) @ unquote_runs (dropWhile is_ascii q)"
proof (cases p)
  case Nil
  then show ?thesis
    by (cases q) simp_all
next
  case (Cons c p')
  with assms have "takeWhile is_ascii (c # p' @ q) = c # p' @ takeWhile is_ascii q"
    "dropWhile is_ascii (c # p' @ q) = dropWhile is_ascii q" "is_ascii c"
    by (simp_all add: takeWhile_append2 dropWhile_append2)
  with Cons show ?thesis
    by (simp del: takeWhile.simps dropWhile.simps)
qed

lemma unquote_runs_sep:
  assumes S: "\<forall>c\<in>set S. is_ascii c" and d: "is_ascii d"
    and B: "\<And>x y. unquote_to_bytes (x @ S @ y) = unquote_to_bytes x @ d # unquote_to_bytes y"
  shows "unquote_runs (x @ S @ y) = unquote_runs x @ d # unquote_runs y"
proof (induction x rule: unquote_runs.induct)
  case 1
  from unquote_runs_split[OF S, of y] unquote_runs_split[of "[]" y] B[of "[]"] show ?case
    by (simp add: utf8_replace_sep[OF d, of "[]", simplified])
next
  case (2 c cs)
  show ?case
  proof (cases "is_ascii c")
    case False
    with 2 show ?thesis
      by simp
  next
    case True
    define xa where "xa = takeWhile is_ascii (c # cs)"
    define xr where "xr = dropWhile is_ascii (c # cs)"
    have x: "c # cs = xa @ xr" and xa: "\<forall>c\<in>set xa. is_ascii c"
      by (auto simp: xa_def xr_def dest: set_takeWhileD)
    have left: "unquote_runs (c # cs) = utf8_replace (unquote_to_bytes xa) @ unquote_runs xr"
      using True by (simp add: xa_def xr_def)
    have right: "unquote_runs y =
        utf8_replace (unquote_to_bytes (takeWhile is_ascii y)) @ unquote_runs (dropWhile is_ascii y)"
      using unquote_runs_split[of "[]" y] by simp
    show ?thesis
    proof (cases xr)
      case Nil
      have all: "\<forall>c\<in>set (xa @ S). is_ascii c"
        using xa S by auto
      have "unquote_runs ((c # cs) @ S @ y) = unquote_runs ((xa @ S) @ y)"
        by (simp only: x Nil append_Nil2 append_assoc)
      also have "\<dots> = utf8_replace (unquote_to_bytes ((xa @ S) @ takeWhile is_ascii y))
          @ unquote_runs (dropWhile is_ascii y)"
        by (rule unquote_runs_split[OF all])
      also have "\<dots> = utf8_replace (unquote_to_bytes xa)
          @ d # utf8_replace (unquote_to_bytes (takeWhile is_ascii y))
          @ unquote_runs (dropWhile is_ascii y)"
        by (simp add: B utf8_replace_sep[OF d])
      also have "\<dots> = (utf8_replace (unquote_to_bytes xa) @ unquote_runs xr) @ d # unquote_runs y"
        by (simp only: Nil right unquote_runs.simps(1) append_Nil2 append_assoc)
      finally show ?thesis
        by (simp only: left)
    next
      case (Cons c' xr')
      then have na: "\<not> is_ascii c'"
        using hd_dropWhile[of is_ascii "c # cs"] by (simp add: xr_def)
      have "unquote_runs ((c # cs) @ S @ y) = unquote_runs (xa @ (xr @ S @ y))"
        by (simp only: x append_assoc)
      also have "\<dots> = utf8_replace (unquote_to_bytes (xa @ takeWhile is_ascii (xr @ S @ y)))
          @ unquote_runs (dropWhile is_ascii (xr @ S @ y))"
        by (rule unquote_runs_split[OF xa])
      also have "\<dots> = utf8_replace (unquote_to_bytes xa) @ unquote_runs (xr @ S @ y)"
        using Cons na by simp
      also have "\<dots> = utf8_replace (unquote_to_bytes xa) @ unquote_runs xr @ d # unquote_runs y"
        using 2(1)[OF True] by (simp only: xr_def)
      finally show ?thesis
        by (simp only: left append_assoc)
    qed
  qed
qed

lemma unquote_to_bytes_plain: "CHR ''%'' \<notin> set x \<Longrightarrow> unquote_to_bytes x = x"
  by (induction x rule: unquote_to_bytes.induct) auto

lemma unquote_runs_plain: "CHR ''%'' \<notin> set x \<Longrightarrow> unquote_runs x = x"
proof (induction x rule: unquote_runs.induct)
  case 1
  show ?case by simp
next
  case (2 c cs)
  show ?case
  proof (cases "is_ascii c")
    case False
    with 2 show ?thesis by simp
  next
    case True
    have a: "\<forall>c\<in>set (takeWhile is_ascii (c # cs)). is_ascii c"
      by (auto dest: set_takeWhileD)
    have p: "CHR ''%'' \<notin> set (takeWhile is_ascii (c # cs))"
      "CHR ''%'' \<notin> set (dropWhile is_ascii (c # cs))"
      using 2(3) by (auto dest: set_takeWhileD set_dropWhileD)
    have "unquote_runs (c # cs) =
        utf8_replace (unquote_to_bytes (takeWhile is_ascii (c # cs)))
          @ unquote_runs (dropWhile is_ascii (c # cs))"
      using True by simp
    also have "\<dots> = takeWhile is_ascii (c # cs) @ dropWhile is_ascii (c # cs)"
      by (simp only: unquote_to_bytes_plain[OF p(1)] utf8_replace_ascii[OF a] 2(1)[OF True p(2)])
    finally show ?thesis
      by (simp only: takeWhile_dropWhile_id)
  qed
qed

lemma unquote_eq_runs: "unquote x = unquote_runs x"
  by (simp add: unquote_def unquote_runs_plain)

lemma ascii_chars: "is_ascii CHR ''+''" "is_ascii CHR '' ''" "is_ascii CHR ''%''"
  "is_ascii CHR ''2''" "is_ascii CHR ''B''"
  by (simp_all add: is_ascii_def)

lemma unquote_2B: "unquote (x @ ''%2B'' @ y) = unquote x @ ''+'' @ unquote y"
  using unquote_runs_sep[of "''%2B''" "CHR ''+''" x y] unquote_to_bytes_2B
  by (simp add: unquote_eq_runs ascii_chars)

lemma unquote_space: "unquote (x @ '' '' @ y) = unquote x @ '' '' @ unquote y"
  using unquote_runs_sep[of "'' ''" "CHR '' ''" x y] unquote_to_bytes_sep[of "CHR '' ''"]
  by (simp add: unquote_eq_runs ascii_chars hex_value_2B)

lemma unquote_plus_2B: "unquote_plus (x @ ''%2B'' @ y) = unquote_plus x @ ''+'' @ unquote_plus y"
  using unquote_2B[of "map (\<lambda>c. if c = CHR ''+'' then CHR '' '' else c) x"
      "map (\<lambda>c. if c = CHR ''+'' then CHR '' '' else c) y"]
  by (simp add: unquote_plus_def)

lemma unquote_plus_plus: "unquote_plus (x @ ''+'' @ y) = unquote_plus x @ '' '' @ unquote_plus y"
  using unquote_space[of "map (\<lambda>c. if c = CHR ''+'' then CHR '' '' else c) x"
      "map (\<lambda>c. if c = CHR ''+'' then CHR '' '' else c) y"]
  by (simp add: unquote_plus_def)

subsection \<open>The threshold\<close>

text \<open>
  Claim C1, as stated, fails: a report whose score is below the threshold and that has
  no \<open>resourcesAffected\<close> ends at the check before the threshold; the counter
  incremented is \<open>MissingResources\<close>, not \<open>TaggingSkipped\<close>. And a report of a low
  score that lacks the description, or the bucket of \<open>resourcesAffected\<close>, raises
  KeyError before the threshold is looked at: no counter is incremented.
\<close>

theorem below_threshold_without_resources:
  "process_record example_interpreter example_config (serving report_without_resources (Response (Parsed PyNone)))
      (example_record ''f%2Bx.json'') example_world =
    (Inr (), \<lparr>calls = [(get_object, [(''Bucket'', PyStr ''b''), (''Key'', PyStr ''f+x.json'')])],
               metrics = [(''MissingResources'', 1)]\<rparr>)
   \<and> process_record example_interpreter example_config
        (serving (report_without_description 1) (Response (Parsed PyNone)))
        (example_record ''f%2Bx.json'') example_world =
      (Inl KeyError,
       \<lparr>calls = [(get_object, [(''Bucket'', PyStr ''b''), (''Key'', PyStr ''f+x.json'')])],
         metrics = []\<rparr>)
   \<and> process_record example_interpreter example_config
        (serving (report_without_bucket 1) (Response (Parsed PyNone)))
        (example_record ''f%2Bx.json'') example_world =
      (Inl KeyError,
       \<lparr>calls = [(get_object, [(''Bucket'', PyStr ''b''), (''Key'', PyStr ''f+x.json'')])],
         metrics = []\<rparr>)"
  by (simp add: process_record_def example_record_def get3_def example_key_decoded get_json_object_def
      client_call_def answer_def accepted_def serving_def report_without_resources_def
      report_without_description_def report_without_bucket_def
      example_world_def example_config_def add_metric_def)

text \<open>
  Claim C1, amended. For every record whose fetched report has a severity score \<open>s\<close>
  below the threshold, \<open>process_record\<close> makes no call but the fetch (no tag-put, no
  lifecycle-put); and when the report also has a description and \<open>resourcesAffected\<close>
  with the bucket's name and the object's key, it returns with \<open>TaggingSkipped\<close>
  incremented exactly once and no other metric. The threshold is 3 when the environment
  does not set it.
\<close>

theorem below_threshold_skips:
  assumes "report_location rec = Inr loc"
    and "answer env (calls w) (fetch_call loc) = Response (Parsed data)"
    and "lookup_path data [''detail'', ''severity'', ''score''] = Some sc"
    and "py_int py sc = Inr s"
    and "s < SCORE_THRESHOLD cfg"
  shows "calls (snd (process_record py cfg env rec w)) = calls w @ [fetch_call loc]
    \<and> (lookup_path data [''detail'', ''severity'', ''description''] \<noteq> None
        \<and> lookup_path data [''detail'', ''resourcesAffected'', ''s3Bucket'', ''name''] \<noteq> None
        \<and> lookup_path data [''detail'', ''resourcesAffected'', ''s3Object'', ''key''] \<noteq> None
       \<longrightarrow> process_record py cfg env rec w =
             (Inr (), w\<lparr>calls := calls w @ [fetch_call loc],
                         metrics := metrics w @ [(''TaggingSkipped'', 1)]\<rparr>))
    \<and> (environ ''SCORE_THRESHOLD'' = None \<and> load_config py environ = Inr c
       \<longrightarrow> SCORE_THRESHOLD c = 3)"
proof (intro conjI impI)
  note f = fetched_Parsed[OF assms(2)]
  show "calls (snd (process_record py cfg env rec w)) = calls w @ [fetch_call loc]"
    by (rule process_record_scored_calls[OF assms(1) f assms(3,4,5)])
  show "SCORE_THRESHOLD c = 3" if "environ ''SCORE_THRESHOLD'' = None \<and> load_config py environ = Inr c"
    using that default_threshold by blast
  show "process_record py cfg env rec w =
             (Inr (), w\<lparr>calls := calls w @ [fetch_call loc],
                         metrics := metrics w @ [(''TaggingSkipped'', 1)]\<rparr>)"
    if "lookup_path data [''detail'', ''severity'', ''description''] \<noteq> None
        \<and> lookup_path data [''detail'', ''resourcesAffected'', ''s3Bucket'', ''name''] \<noteq> None
        \<and> lookup_path data [''detail'', ''resourcesAffected'', ''s3Object'', ''key''] \<noteq> None"
  proof -
    from that obtain desc ab ak where
      "lookup_path data [''detail'', ''severity'', ''description''] = Some desc"
      "lookup_path data [''detail'', ''resourcesAffected'', ''s3Bucket'', ''name''] = Some ab"
      "lookup_path data [''detail'', ''resourcesAffected'', ''s3Object'', ''key''] = Some ak"
      by auto
    from process_record_finding[where py = py and cfg = cfg, OF assms(1) f assms(3,4) this] assms(5)
    show ?thesis
      by (simp add: add_metric_def called_def)
  qed
qed

theorem below_threshold_skips_witness:
  "process_record example_interpreter example_config (serving (example_report 2) (Response (Parsed PyNone)))
      (example_record ''f%2Bx.json'') example_world =
    (Inr (), \<lparr>calls = [(get_object, [(''Bucket'', PyStr ''b''), (''Key'', PyStr ''f+x.json'')])],
               metrics = [(''TaggingSkipped'', 1)]\<rparr>)
   \<and> SCORE_THRESHOLD example_config = 3"
  using below_threshold_skips[where py = example_interpreter and cfg = example_config
      and env = "serving (example_report 2) (Response (Parsed PyNone))"
      and rec = "example_record ''f%2Bx.json''" and w = example_world and s = 2
      and environ = Map.empty and c = example_config,
      OF example_location example_fetch example_report_fields(1)] example_default_config
  by (simp add: example_report_fields example_world_def fetch_call_def)
     (simp add: example_config_def)

subsection \<open>Tagging and the lifecycle rule\<close>

text \<open>
  Claim C2, as stated, fails: when the tag-put call raises anything but a
  \<open>ClientError\<close> (here a transport failure) the exception leaves \<open>process_record\<close> and
  no lifecycle-put call is made; and a non-empty \<open>resourcesAffected\<close> without
  \<open>s3Bucket\<close>, or a severity without description, raises KeyError before any put call.
\<close>

theorem remediation_calls_not_always_both:
  "calls (snd (process_record example_interpreter example_config
                 (serving (example_report 5) (Raises EndpointConnectionError))
                 (example_record ''f%2Bx.json'') example_world)) =
     [(get_object, [(''Bucket'', PyStr ''b''), (''Key'', PyStr ''f+x.json'')]),
      (put_object_tagging,
       [(''Bucket'', PyStr ''data''), (''Key'', PyStr ''secret.csv''),
        (''Tagging'',
           PyDict [(''TagSet'',
             PyList [PyDict [(''Key'', PyStr ''Severity''), (''Value'', PyStr ''High'')]])])])]
   \<and> process_record example_interpreter example_config
         (serving (report_without_bucket 5) (Response (Parsed PyNone)))
         (example_record ''f%2Bx.json'') example_world =
       (Inl KeyError,
        \<lparr>calls = [(get_object, [(''Bucket'', PyStr ''b''), (''Key'', PyStr ''f+x.json'')])],
          metrics = []\<rparr>)
   \<and> process_record example_interpreter example_config
         (serving (report_without_description 5) (Response (Parsed PyNone)))
         (example_record ''f%2Bx.json'') example_world =
       (Inl KeyError,
        \<lparr>calls = [(get_object, [(''Bucket'', PyStr ''b''), (''Key'', PyStr ''f+x.json'')])],
          metrics = []\<rparr>)"
  by (simp add: process_record_def example_record_def get3_def example_key_decoded get_json_object_def
      client_call_def answer_def accepted_def serving_def example_report_def
      report_without_bucket_def report_without_description_def example_world_def
      example_config_def add_metric_def tag_object_def lifecycle_config_def py_str_def)

text \<open>
  Claim C2, amended. For every record whose fetched report has a score at or above the
  threshold, a description, and \<open>resourcesAffected\<close> with the bucket's name and the
  object's key: \<open>process_record\<close> makes, after the fetch, exactly one tag-put call;
  when that call returns or raises a \<open>ClientError\<close>, it then makes exactly one
  lifecycle-put call, and when the tag-put call raises anything else it makes no
  lifecycle-put call. The tag's value is \<^verbatim>\<open>str\<close> of the report's severity description
  (the description itself when it is a str), the rule's prefix is the affected object's
  key, and bucket, key and version of both calls are those of \<open>resourcesAffected\<close>,
  whatever the location the report was fetched from and whatever the lifecycle-put call
  answers.
\<close>

theorem remediation_calls:
  assumes "report_location rec = Inr loc"
    and "answer env (calls w) (fetch_call loc) = Response (Parsed data)"
    and "lookup_path data [''detail'', ''severity'', ''score''] = Some sc"
    and "py_int py sc = Inr s"
    and "lookup_path data [''detail'', ''severity'', ''description''] = Some desc"
    and "lookup_path data [''detail'', ''resourcesAffected'', ''s3Bucket'', ''name''] = Some ab"
    and "lookup_path data [''detail'', ''resourcesAffected'', ''s3Object'', ''key''] = Some ak"
    and "SCORE_THRESHOLD cfg \<le> s"
  shows "(let tag =
            (put_object_tagging,
             [(''Bucket'', ab), (''Key'', ak),
              (''Tagging'',
                 PyDict [(''TagSet'',
                   PyList [PyDict [(''Key'', PyStr (TAG_KEY_NAME cfg)),
                                   (''Value'', PyStr (py_str py desc))]])])]
               @ (if truthy (affected_version data)
                  then [(''VersionId'', affected_version data)] else []));
              lifecycle =
            (put_bucket_lifecycle_configuration,
             [(''Bucket'', ab),
              (''LifecycleConfiguration'',
                 PyDict [(''Rules'',
                   PyList [PyDict
                     [(''Filter'', PyDict [(''Prefix'', ak)]),
                      (''Status'', PyStr ''Enabled''),
                      (''NoncurrentVersionTransitions'',
                         PyList [PyDict [(''NoncurrentDays'', PyInt (GLACIER_TRANSITION_DAYS cfg)),
                                         (''StorageClass'', PyStr ''GLACIER'')]]),
                      (''NoncurrentVersionExpiration'',
                         PyDict [(''NoncurrentDays'', PyInt (EXPIRE_OBJECTS_DAYS cfg))])]])])])
          in calls (snd (process_record py cfg env rec w)) =
               calls w @ [fetch_call loc, tag] @
                 (case answer env (calls w @ [fetch_call loc]) tag of
                    Raises e \<Rightarrow> if e = ClientError then [lifecycle] else []
                  | Response r \<Rightarrow> [lifecycle]))
    \<and> (\<forall>d. desc = PyStr d \<longrightarrow> py_str py desc = d)"
  using process_record_remediates[OF assms(1) fetched_Parsed[OF assms(2)] assms(3-8),
      unfolded tag_call_def lifecycle_call_def]
  by (simp add: py_str_def Let_def)

theorem remediation_calls_witness:
  "calls (snd (process_record example_interpreter example_config
                 (serving (example_report 5) (Response (Parsed PyNone)))
                 (example_record ''f%2Bx.json'') example_world)) =
     [(get_object, [(''Bucket'', PyStr ''b''), (''Key'', PyStr ''f+x.json'')]),
      (put_object_tagging,
       [(''Bucket'', PyStr ''data''), (''Key'', PyStr ''secret.csv''),
        (''Tagging'',
           PyDict [(''TagSet'',
             PyList [PyDict [(''Key'', PyStr ''Severity''), (''Value'', PyStr ''High'')]])])]),
      (put_bucket_lifecycle_configuration,
       [(''Bucket'', PyStr ''data''),
        (''LifecycleConfiguration'',
           PyDict [(''Rules'',
             PyList [PyDict
               [(''Filter'', PyDict [(''Prefix'', PyStr ''secret.csv'')]),
                (''Status'', PyStr ''Enabled''),
                (''NoncurrentVersionTransitions'',
                   PyList [PyDict [(''NoncurrentDays'', PyInt 365),
                                   (''StorageClass'', PyStr ''GLACIER'')]]),
                (''NoncurrentVersionExpiration'',
                   PyDict [(''NoncurrentDays'', PyInt 1825)])]])])])]"
proof -
  have "SCORE_THRESHOLD example_config \<le> 5"
    by (simp add: example_config_def)
  from remediation_calls[where py = example_interpreter and w = example_world
      and env = "serving (example_report 5) (Response (Parsed PyNone))",
      OF example_location example_fetch example_report_fields(1) _ example_report_fields(2-4) this]
  show ?thesis
    by (simp add: example_world_def fetch_call_def example_report_fields example_config_def
        py_str_def Let_def answer_def serving_def accepted_def)
qed

text \<open>
  Claim C3, as stated, fails: \<open>tag_object\<close> catches \<open>ClientError\<close> only. A transport
  failure of the tag-put call leaves \<open>process_record\<close>; no counter is incremented and
  the lifecycle-put call is not made.
\<close>

theorem tagging_transport_failure_propagates:
  "process_record example_interpreter example_config
      (serving (example_report 5) (Raises EndpointConnectionError))
      (example_record ''f%2Bx.json'') example_world =
    (Inl EndpointConnectionError,
     \<lparr>calls = [fetch_call (PyStr ''b'', PyStr ''f+x.json'', PyNone),
               tag_call example_interpreter example_config (PyStr ''High'') (PyStr ''data'')
                 (PyStr ''secret.csv'') PyNone],
       metrics = []\<rparr>)"
  by (simp add: process_record_def example_record_def get3_def example_key_decoded get_json_object_def
      client_call_def answer_def accepted_def serving_def example_report_def
      example_world_def example_config_def add_metric_def fetch_call_def tag_call_def
      tag_object_def lifecycle_config_def py_str_def)

text \<open>
  Claim C3, amended. When the tag-put call raises a \<open>ClientError\<close>, the error does not
  leave \<open>process_record\<close>: \<open>TaggingFailed\<close> is incremented and the lifecycle-put call
  is made next; when the tag-put call returns, \<open>TaggingSuccess\<close> is incremented and the
  lifecycle-put call is made next. In both cases \<open>process_record\<close> returns unless the
  lifecycle-put call raises something other than a \<open>ClientError\<close>. Any other exception
  of the tag-put call leaves \<open>process_record\<close> at once, with no counter incremented
  and no lifecycle-put call.
\<close>

theorem tagging_outcome:
  assumes "report_location rec = Inr loc"
    and "answer env (calls w) (fetch_call loc) = Response (Parsed data)"
    and "lookup_path data [''detail'', ''severity'', ''score''] = Some sc"
    and "py_int py sc = Inr s"
    and "lookup_path data [''detail'', ''severity'', ''description''] = Some desc"
    and "lookup_path data [''detail'', ''resourcesAffected'', ''s3Bucket'', ''name''] = Some ab"
    and "lookup_path data [''detail'', ''resourcesAffected'', ''s3Object'', ''key''] = Some ak"
    and "SCORE_THRESHOLD cfg \<le> s"
  shows "process_record py cfg env rec w =
     (let tag = tag_call py cfg desc ab ak (affected_version data);
          lifecycle = lifecycle_call cfg ab ak;
          after_lifecycle =
            (case answer env (calls w @ [fetch_call loc, tag]) lifecycle of
               Raises e \<Rightarrow> if e = ClientError then Inr () else Inl e
             | Response r \<Rightarrow> Inr ())
      in case answer env (calls w @ [fetch_call loc]) tag of
           Raises e \<Rightarrow>
             if e = ClientError
             then (after_lifecycle,
                   w\<lparr>calls := calls w @ [fetch_call loc, tag, lifecycle],
                     metrics := metrics w @ [(''TaggingFailed'', 1)]\<rparr>)
             else (Inl e, w\<lparr>calls := calls w @ [fetch_call loc, tag]\<rparr>)
         | Response r \<Rightarrow>
             (after_lifecycle,
              w\<lparr>calls := calls w @ [fetch_call loc, tag, lifecycle],
                metrics := metrics w @ [(''TaggingSuccess'', 1)]\<rparr>))"
  using process_record_finding[where py = py and cfg = cfg, OF assms(1) fetched_Parsed[OF assms(2)] assms(3-7)]
    assms(8)
  by (simp add: tag_object_result lifecycle_config_result called_def add_metric_def Let_def
      split: response.splits)

theorem tagging_outcome_witness:
  "process_record example_interpreter example_config (serving (example_report 5) (Raises ClientError))
      (example_record ''f%2Bx.json'') example_world =
    (Inr (),
     \<lparr>calls = [fetch_call (PyStr ''b'', PyStr ''f+x.json'', PyNone),
               tag_call example_interpreter example_config (PyStr ''High'') (PyStr ''data'')
                 (PyStr ''secret.csv'') PyNone,
               lifecycle_call example_config (PyStr ''data'') (PyStr ''secret.csv'')],
       metrics = [(''TaggingFailed'', 1)]\<rparr>)"
proof -
  have "SCORE_THRESHOLD example_config \<le> 5"
    by (simp add: example_config_def)
  from tagging_outcome[where py = example_interpreter and w = example_world
      and env = "serving (example_report 5) (Raises ClientError)",
      OF example_location example_fetch example_report_fields(1) _ example_report_fields(2-4) this]
  show ?thesis
    by (simp add: example_report_fields example_world_def Let_def answer_def serving_def
        accepted_def tag_call_def lifecycle_call_def)
qed

subsection \<open>A report that cannot be fetched\<close>

text \<open>
  Claim C4. For every record, if the \<^verbatim>\<open>get_object\<close> call raises, or the body cannot be
  read or decoded, or it is no JSON, then \<open>process_record\<close> returns without an
  exception: the only call is the fetch (no tag-put, no lifecycle-put) and the counter
  \<open>EmptyObject\<close> is incremented once.
\<close>

theorem failed_fetch_ends_empty:
  assumes "report_location rec = Inr loc"
    and "case answer env (calls w) (fetch_call loc) of
           Response (Parsed data) \<Rightarrow> False | _ \<Rightarrow> True"
  shows "process_record py cfg env rec w =
     (Inr (), w\<lparr>calls := calls w @ [fetch_call loc],
                 metrics := metrics w @ [(''EmptyObject'', 1)]\<rparr>)"
  using process_record_empty[where py = py and cfg = cfg and env = env and w = w, OF assms(1)] fetched_failed[OF assms(2)]
  by simp

theorem failed_fetch_ends_empty_witness:
  "report_location (example_record ''f%2Bx.json'') = Inr (PyStr ''b'', PyStr ''f+x.json'', PyNone)
   \<and> process_record example_interpreter example_config (failing (Response (Unparseable (OtherError ''JSONDecodeError''))))
        (example_record ''f%2Bx.json'') example_world =
      (Inr (), \<lparr>calls = [(get_object, [(''Bucket'', PyStr ''b''), (''Key'', PyStr ''f+x.json'')])],
                 metrics = [(''EmptyObject'', 1)]\<rparr>)
   \<and> process_record example_interpreter example_config (failing (Raises (OtherError ''NoSuchKey'')))
        (example_record ''f%2Bx.json'') example_world =
      (Inr (), \<lparr>calls = [(get_object, [(''Bucket'', PyStr ''b''), (''Key'', PyStr ''f+x.json'')])],
                 metrics = [(''EmptyObject'', 1)]\<rparr>)"
  using failed_fetch_ends_empty[OF example_location, of "failing (Response (Unparseable (OtherError ''JSONDecodeError'')))"
      example_world example_interpreter example_config]
    failed_fetch_ends_empty[OF example_location, of "failing (Raises (OtherError ''NoSuchKey''))"
      example_world example_interpreter example_config]
  by (simp add: example_location answer_def failing_def fetch_call_def accepted_def example_world_def)

subsection \<open>A report without a severity score\<close>

text \<open>
  Claim C5, as stated, fails: a report that is fetched and parsed but empty (here
  \<^verbatim>\<open>{}\<close>, in which the score is absent) ends at the check for an empty object;
  nothing is raised and the records after it are processed.
\<close>

theorem empty_report_does_not_abort:
  "handler example_interpreter example_config (serving (PyDict []) (Response (Parsed PyNone)))
      (example_event [example_record ''f%2Bx.json'', example_record ''g.json'']) example_world
    = (Inr (),
       \<lparr>calls = [(get_object, [(''Bucket'', PyStr ''b''), (''Key'', PyStr ''f+x.json'')]),
                 (get_object, [(''Bucket'', PyStr ''b''), (''Key'', PyStr ''g.json'')])],
         metrics = [(''EmptyObject'', 1), (''EmptyObject'', 1)]\<rparr>)"
proof -
  have "unquote_plus ''g.json'' = ''g.json''"
    by code_simp
  then show ?thesis
    by (simp add: handler_def example_event_def process_record_def example_record_def get3_def
        example_key_decoded get_json_object_def client_call_def answer_def accepted_def
        serving_def example_world_def add_metric_def)
qed

text \<open>
  Claim C5, amended. For every fetched report that is not empty (not falsy) and in
  which \<open>detail.severity.score\<close> is absent or not coercible to an integer, the error
  (AttributeError, KeyError, TypeError, ValueError or OverflowError) is not caught: it
  leaves \<open>process_record\<close> after the fetch, with no metric added, and it leaves
  \<open>handler\<close>, whose result does not depend on the records after this one: none of them
  is processed.
\<close>

theorem unscored_report_aborts_invocation:
  assumes "lookup_path event [''Records''] = Some (PyList (earlier @ rec # rest))"
    and "process_records py cfg env earlier w0 = (Inr (), w)"
    and "report_location rec = Inr loc"
    and "answer env (calls w) (fetch_call loc) = Response (Parsed data)"
    and "truthy data"
    and "case lookup_path data [''detail'', ''severity'', ''score''] of
           None \<Rightarrow> True
         | Some sc \<Rightarrow> (case py_int py sc of Inl e \<Rightarrow> True | Inr i \<Rightarrow> False)"
  shows "\<exists>e. score_error e
    \<and> process_record py cfg env rec w = (Inl e, w\<lparr>calls := calls w @ [fetch_call loc]\<rparr>)
    \<and> handler py cfg env event w0 = (Inl e, w\<lparr>calls := calls w @ [fetch_call loc]\<rparr>)"
proof -
  from process_record_unscored[where py = py and cfg = cfg, OF assms(3) fetched_Parsed[OF assms(4)] assms(5,6)]
  obtain e where e: "score_error e"
    "process_record py cfg env rec w = (Inl e, w\<lparr>calls := calls w @ [fetch_call loc]\<rparr>)"
    by blast
  have "handler py cfg env event w0 = (Inl e, w\<lparr>calls := calls w @ [fetch_call loc]\<rparr>)"
    by (simp add: handler_records[OF assms(1)] process_records_append assms(2) e(2))
  with e show ?thesis
    by blast
qed

theorem unscored_report_aborts_invocation_witness:
  "handler example_interpreter example_config (serving report_without_severity (Response (Parsed PyNone)))
      (example_event [example_record ''f%2Bx.json'', example_record ''f%2Bx.json'']) example_world
    = (Inl KeyError,
       \<lparr>calls = [(get_object, [(''Bucket'', PyStr ''b''), (''Key'', PyStr ''f+x.json'')])],
         metrics = []\<rparr>)"
proof -
  have ev: "lookup_path (example_event [example_record ''f%2Bx.json'', example_record ''f%2Bx.json''])
      [''Records''] = Some (PyList ([] @ example_record ''f%2Bx.json'' # [example_record ''f%2Bx.json'']))"
    by (simp add: example_event_def)
  have bad: "case lookup_path report_without_severity [''detail'', ''severity'', ''score''] of
           None \<Rightarrow> True
         | Some sc \<Rightarrow> (case py_int example_interpreter sc of Inl e \<Rightarrow> True | Inr i \<Rightarrow> False)"
    "truthy report_without_severity"
    by (simp_all add: report_without_severity_def)
  have start: "process_records example_interpreter example_config
      (serving report_without_severity (Response (Parsed PyNone))) [] example_world
      = (Inr (), example_world)"
    by simp
  from unscored_report_aborts_invocation[OF ev start example_location example_fetch bad(2,1)]
  obtain e where e: "process_record example_interpreter example_config
        (serving report_without_severity (Response (Parsed PyNone)))
        (example_record ''f%2Bx.json'') example_world =
      (Inl e, example_world\<lparr>calls := calls example_world
          @ [fetch_call (PyStr ''b'', PyStr ''f+x.json'', PyNone)]\<rparr>)"
    "handler example_interpreter example_config (serving report_without_severity (Response (Parsed PyNone)))
      (example_event [example_record ''f%2Bx.json'', example_record ''f%2Bx.json'']) example_world
    = (Inl e, example_world\<lparr>calls := calls example_world
          @ [fetch_call (PyStr ''b'', PyStr ''f+x.json'', PyNone)]\<rparr>)"
    by blast
  have "process_record example_interpreter example_config
        (serving report_without_severity (Response (Parsed PyNone)))
        (example_record ''f%2Bx.json'') example_world =
      (Inl KeyError, example_world\<lparr>calls := calls example_world
          @ [fetch_call (PyStr ''b'', PyStr ''f+x.json'', PyNone)]\<rparr>)"
    by (simp add: process_record_def example_record_def get3_def example_key_decoded
        get_json_object_def client_call_def answer_def accepted_def serving_def
        report_without_severity_def fetch_call_def)
  with e have "e = KeyError"
    by simp
  with e(2) show ?thesis
    by (simp add: example_world_def fetch_call_def)
qed

text \<open>
  Claim C10, as stated, fails: the empty report \<^verbatim>\<open>{}\<close> lacks \<open>detail.severity\<close> (and
  \<open>resourcesAffected\<close>), and \<open>process_record\<close> returns for it without raising.
\<close>

theorem empty_report_does_not_raise:
  "process_record example_interpreter example_config (serving (PyDict []) (Response (Parsed PyNone)))
      (example_record ''f%2Bx.json'') example_world =
    (Inr (),
     \<lparr>calls = [(get_object, [(''Bucket'', PyStr ''b''), (''Key'', PyStr ''f+x.json'')])],
       metrics = [(''EmptyObject'', 1)]\<rparr>)"
  by (simp add: process_record_def example_record_def get3_def example_key_decoded
      get_json_object_def client_call_def answer_def accepted_def serving_def
      example_world_def add_metric_def)

text \<open>
  Claim C10, amended. The severity score is read before \<open>resourcesAffected\<close> is
  looked at: for every fetched report in which \<open>detail.severity.score\<close> is absent or
  not coercible to an integer, whatever its \<open>resourcesAffected\<close>, \<open>process_record\<close>
  raises when the report is not empty (not falsy) and ends on the empty-object path
  when it is; in neither case is \<open>MissingResources\<close> incremented.
\<close>

theorem unscored_report_never_counts_missing_resources:
  assumes "report_location rec = Inr loc"
    and "answer env (calls w) (fetch_call loc) = Response (Parsed data)"
    and "case lookup_path data [''detail'', ''severity'', ''score''] of
           None \<Rightarrow> True
         | Some sc \<Rightarrow> (case py_int py sc of Inl e \<Rightarrow> True | Inr i \<Rightarrow> False)"
  shows "(if truthy data
          then \<exists>e. score_error e
                 \<and> process_record py cfg env rec w =
                     (Inl e, w\<lparr>calls := calls w @ [fetch_call loc]\<rparr>)
          else process_record py cfg env rec w =
                 (Inr (), w\<lparr>calls := calls w @ [fetch_call loc],
                             metrics := metrics w @ [(''EmptyObject'', 1)]\<rparr>))
    \<and> count_list (metrics (snd (process_record py cfg env rec w))) (''MissingResources'', 1)
        = count_list (metrics w) (''MissingResources'', 1)"
proof (cases "truthy data")
  case True
  from process_record_unscored[where py = py and cfg = cfg, OF assms(1) fetched_Parsed[OF assms(2)] True assms(3)]
  show ?thesis
    using True by auto
next
  case False
  with process_record_empty[where py = py and cfg = cfg and env = env and w = w, OF assms(1)] fetched_Parsed[OF assms(2)]
  show ?thesis
    by simp
qed

theorem unscored_report_never_counts_missing_resources_witness:
  "process_record example_interpreter example_config
      (serving report_without_severity (Response (Parsed PyNone)))
      (example_record ''f%2Bx.json'') example_world =
    (Inl KeyError,
     \<lparr>calls = [(get_object, [(''Bucket'', PyStr ''b''), (''Key'', PyStr ''f+x.json'')])],
       metrics = []\<rparr>)"
proof -
  have bad: "case lookup_path report_without_severity [''detail'', ''severity'', ''score''] of
           None \<Rightarrow> True
         | Some sc \<Rightarrow> (case py_int example_interpreter sc of Inl e \<Rightarrow> True | Inr i \<Rightarrow> False)"
    "truthy report_without_severity"
    by (simp_all add: report_without_severity_def)
  from unscored_report_never_counts_missing_resources[where py = example_interpreter and cfg = example_config,
      OF example_location example_fetch bad(1)] bad(2)
  obtain e where e: "process_record example_interpreter example_config
        (serving report_without_severity (Response (Parsed PyNone)))
        (example_record ''f%2Bx.json'') example_world =
      (Inl e, example_world\<lparr>calls := calls example_world
          @ [fetch_call (PyStr ''b'', PyStr ''f+x.json'', PyNone)]\<rparr>)"
    by auto
  have "process_record example_interpreter example_config
        (serving report_without_severity (Response (Parsed PyNone)))
        (example_record ''f%2Bx.json'') example_world =
      (Inl KeyError, example_world\<lparr>calls := calls example_world
          @ [fetch_call (PyStr ''b'', PyStr ''f+x.json'', PyNone)]\<rparr>)"
    by (simp add: process_record_def example_record_def get3_def example_key_decoded
        get_json_object_def client_call_def answer_def accepted_def serving_def
        report_without_severity_def fetch_call_def)
  with e show ?thesis
    by (simp add: example_world_def fetch_call_def)
qed

subsection \<open>The record's key and location\<close>

text \<open>
  Claim C6. For every record of the event's shape whose key is a non-empty str, the
  fetch is made with the key decoded by \<^verbatim>\<open>unquote_plus\<close>, in which \<^verbatim>\<open>%2B\<close> decodes to
  \<^verbatim>\<open>+\<close> and \<^verbatim>\<open>+\<close> to a space, wherever they stand in the key. The decoded key is used
  for the fetch only: the calls after the fetch are the first \<open>n\<close> of the tag-put and
  the lifecycle-put that the fetched report asks for, whose bucket, key, version and
  prefix are those of the report's \<open>resourcesAffected\<close>.
\<close>

theorem key_decoded_for_fetch_only:
  assumes "envelope rec"
    and "lookup_path rec [''s3'', ''object'', ''key''] = Some (PyStr key)"
    and "key \<noteq> []"
  shows "(\<exists>n. calls (snd (process_record py cfg env rec w)) =
            calls w @
              fetch_call (field rec [''s3'', ''bucket'', ''name''], PyStr (unquote_plus key),
                          field rec [''s3'', ''object'', ''versionId''])
              # take n (remediation py cfg
                  (fetched env w (field rec [''s3'', ''bucket'', ''name''], PyStr (unquote_plus key),
                                  field rec [''s3'', ''object'', ''versionId'']))))
    \<and> unquote_plus (a @ ''%2B'' @ b) = unquote_plus a @ ''+'' @ unquote_plus b
    \<and> unquote_plus (a @ ''+'' @ b) = unquote_plus a @ '' '' @ unquote_plus b"
proof -
  from envelope_location[OF assms(1)] assms(2,3)
  have "report_location rec =
      Inr (field rec [''s3'', ''bucket'', ''name''], PyStr (unquote_plus key),
           field rec [''s3'', ''object'', ''versionId''])"
    by simp
  from process_record_calls[OF this, of py cfg env w]
    unquote_plus_2B[of a b] unquote_plus_plus[of a b]
  show ?thesis
    by blast
qed

theorem key_decoded_for_fetch_only_witness:
  "calls (snd (process_record example_interpreter example_config
                 (serving (example_report 5) (Response (Parsed PyNone)))
                 (example_record ''f%2Bx.json'') example_world)) =
     [(get_object, [(''Bucket'', PyStr ''b''), (''Key'', PyStr ''f+x.json'')]),
      tag_call example_interpreter example_config (PyStr ''High'') (PyStr ''data'') (PyStr ''secret.csv'') PyNone,
      lifecycle_call example_config (PyStr ''data'') (PyStr ''secret.csv'')]
   \<and> unquote_plus ''f%2Bx.json'' = ''f+x.json''
   \<and> unquote_plus ''a+b'' = ''a b''"
proof -
  let ?run = "process_record example_interpreter example_config
                 (serving (example_report 5) (Response (Parsed PyNone)))
                 (example_record ''f%2Bx.json'') example_world"
  have e: "envelope (example_record ''f%2Bx.json'')"
    and k: "lookup_path (example_record ''f%2Bx.json'') [''s3'', ''object'', ''key'']
        = Some (PyStr ''f%2Bx.json'')"
    and f: "field (example_record ''f%2Bx.json'') [''s3'', ''bucket'', ''name''] = PyStr ''b''"
      "field (example_record ''f%2Bx.json'') [''s3'', ''object'', ''versionId''] = PyNone"
    by (simp_all add: envelope_def example_record_def absent_or_def field_def)
  have r: "remediation example_interpreter example_config (example_report 5) =
     [tag_call example_interpreter example_config (PyStr ''High'') (PyStr ''data'') (PyStr ''secret.csv'') PyNone,
      lifecycle_call example_config (PyStr ''data'') (PyStr ''secret.csv'')]"
    by (simp add: remediation_def field_def example_report_fields)
  have g: "fetched (serving (example_report 5) (Response (Parsed PyNone))) example_world
      (PyStr ''b'', PyStr ''f+x.json'', PyNone) = example_report 5"
    by (simp add: fetched_def example_fetch)
  have plain: "unquote_plus ''f'' = ''f''" "unquote_plus ''x.json'' = ''x.json''"
    "unquote_plus ''a'' = ''a''" "unquote_plus ''b'' = ''b''"
    by code_simp+
  have len: "length (calls (snd ?run)) = 3"
    by (simp add: process_record_def example_record_def get3_def example_key_decoded
        get_json_object_def client_call_def answer_def accepted_def serving_def
        example_report_def example_world_def example_config_def add_metric_def tag_object_def
        lifecycle_config_def)
  from key_decoded_for_fetch_only[where py = example_interpreter and cfg = example_config
      and env = "serving (example_report 5) (Response (Parsed PyNone))" and w = example_world
      and a = "''f''" and b = "''x.json''", OF e k]
  obtain n where n: "calls (snd ?run) =
      calls example_world @ fetch_call (PyStr ''b'', PyStr (unquote_plus ''f%2Bx.json''), PyNone)
        # take n (remediation example_interpreter example_config
            (fetched (serving (example_report 5) (Response (Parsed PyNone))) example_world
               (PyStr ''b'', PyStr (unquote_plus ''f%2Bx.json''), PyNone)))"
    and d1: "unquote_plus (''f'' @ ''%2B'' @ ''x.json'') = unquote_plus ''f'' @ ''+'' @ unquote_plus ''x.json''"
    by (auto simp: f)
  from key_decoded_for_fetch_only[where py = example_interpreter and cfg = example_config
      and env = "serving (example_report 5) (Response (Parsed PyNone))" and w = example_world
      and a = "''a''" and b = "''b''", OF e k]
  have d2: "unquote_plus (''a'' @ ''+'' @ ''b'') = unquote_plus ''a'' @ '' '' @ unquote_plus ''b''"
    by simp
  from d1 plain have k1: "unquote_plus ''f%2Bx.json'' = ''f+x.json''"
    by simp
  from d2 plain have k2: "unquote_plus ''a+b'' = ''a b''"
    by simp
  have cw: "calls example_world = []"
    by (simp add: example_world_def)
  from n len have "2 \<le> n"
    by (simp add: k1 g r cw)
  with n have "calls (snd ?run) =
      [fetch_call (PyStr ''b'', PyStr ''f+x.json'', PyNone),
       tag_call example_interpreter example_config (PyStr ''High'') (PyStr ''data'') (PyStr ''secret.csv'') PyNone,
       lifecycle_call example_config (PyStr ''data'') (PyStr ''secret.csv'')]"
    by (simp add: k1 g r cw)
  with k1 k2 show ?thesis
    by (simp add: fetch_call_def)
qed

text \<open>
  Claim C9, as stated, fails: a record may lack the bucket's name because what stands
  for the bucket is no dict, or have a key that is no str. Reading the location of such
  a record raises AttributeError (of \<^verbatim>\<open>.get\<close> in the first record, of \<^verbatim>\<open>unquote_plus\<close>
  in the second): no fetch is attempted and \<open>EmptyObject\<close> is not incremented.
\<close>

theorem malformed_record_raises:
  "lookup_path record_with_bucket_str [''s3'', ''bucket'', ''name''] = None
   \<and> process_record example_interpreter example_config
         (serving (example_report 5) (Response (Parsed PyNone)))
         record_with_bucket_str example_world =
       (Inl AttributeError, \<lparr>calls = [], metrics = []\<rparr>)
   \<and> lookup_path record_with_key_int [''s3'', ''bucket'', ''name''] = None
   \<and> process_record example_interpreter example_config
         (serving (example_report 5) (Response (Parsed PyNone)))
         record_with_key_int example_world =
       (Inl AttributeError, \<lparr>calls = [], metrics = []\<rparr>)"
  by (simp add: process_record_def record_with_bucket_str_def record_with_key_int_def get3_def
      example_world_def)

text \<open>
  Claim C9, amended. For every record of the event's shape (a dict in which each of
  \<open>s3\<close>, \<open>s3.bucket\<close> and \<open>s3.object\<close> is absent or a dict, and the name, the key
  and the version are absent or a str) in which the bucket's name or the object's key is
  missing, \<open>process_record\<close> raises nothing (no KeyError either): the fetch is
  attempted with None for the missing name or key, the client refuses it, the failure
  is swallowed, and the record ends on the empty-object path: the only call is the
  fetch (no tag-put, no lifecycle-put) and \<open>EmptyObject\<close> is incremented once.
\<close>

theorem missing_location_ends_empty:
  assumes "envelope rec"
    and "lookup_path rec [''s3'', ''bucket'', ''name''] = None
         \<or> lookup_path rec [''s3'', ''object'', ''key''] = None"
  shows "\<exists>bucket key version_id.
      report_location rec = Inr (bucket, key, version_id)
      \<and> (bucket = PyNone \<or> key = PyNone)
      \<and> process_record py cfg env rec w =
          (Inr (), w\<lparr>calls := calls w @ [fetch_call (bucket, key, version_id)],
                      metrics := metrics w @ [(''EmptyObject'', 1)]\<rparr>)"
proof -
  let ?b = "field rec [''s3'', ''bucket'', ''name'']"
  let ?k = "case lookup_path rec [''s3'', ''object'', ''key''] of
             Some (PyStr key) \<Rightarrow> PyStr (if key = [] then [] else unquote_plus key)
           | _ \<Rightarrow> PyNone"
  let ?v = "field rec [''s3'', ''object'', ''versionId'']"
  note loc = envelope_location[OF assms(1)]
  from assms(2) have none: "?b = PyNone \<or> ?k = PyNone"
    by (auto simp: field_def)
  then have "\<not> accepted (fetch_call (?b, ?k, ?v))"
    by (auto simp: accepted_def fetch_call_def)
  then have "fetched env w (?b, ?k, ?v) = PyNone"
    by (simp add: fetched_def answer_def)
  with process_record_empty[where py = py and cfg = cfg and env = env and w = w, OF loc] have
    "process_record py cfg env rec w =
      (Inr (), w\<lparr>calls := calls w @ [fetch_call (?b, ?k, ?v)],
                  metrics := metrics w @ [(''EmptyObject'', 1)]\<rparr>)"
    by simp
  with loc none show ?thesis
    by blast
qed

theorem missing_location_ends_empty_witness:
  "envelope record_without_key
   \<and> lookup_path record_without_key [''s3'', ''object'', ''key''] = None
   \<and> process_record example_interpreter example_config (serving (example_report 5) (Response (Parsed PyNone)))
        record_without_key example_world =
      (Inr (), \<lparr>calls = [(get_object, [(''Bucket'', PyStr ''b''), (''Key'', PyNone)])],
                 metrics = [(''EmptyObject'', 1)]\<rparr>)"
proof -
  have e: "envelope record_without_key"
    and k: "lookup_path record_without_key [''s3'', ''object'', ''key''] = None"
    by (simp_all add: envelope_def record_without_key_def absent_or_def)
  have l: "report_location record_without_key = Inr (PyStr ''b'', PyNone, PyNone)"
    by (simp add: report_location_def record_without_key_def get3_def)
  from missing_location_ends_empty[OF e disjI2[OF k], of example_interpreter example_config
      "serving (example_report 5) (Response (Parsed PyNone))" example_world] l
  have "process_record example_interpreter example_config (serving (example_report 5) (Response (Parsed PyNone)))
        record_without_key example_world =
      (Inr (), example_world\<lparr>calls := calls example_world @ [fetch_call (PyStr ''b'', PyNone, PyNone)],
                 metrics := metrics example_world @ [(''EmptyObject'', 1)]\<rparr>)"
    by auto
  with e k show ?thesis
    by (simp add: example_world_def fetch_call_def)
qed

section \<open>Properties of the Notification Configurator\<close>

lemma create_no_bucket:
  assumes "lookup_path event [''ResourceProperties'', ''BucketName''] = None"
  shows "create env event w = (Inl ValueError, w) \<or> create env event w = (Inl AttributeError, w)"
proof (cases event)
  case (PyDict ev)
  show ?thesis
  proof (cases "map_of ev ''ResourceProperties''")
    case None
    with PyDict show ?thesis by (simp add: create_def)
  next
    case (Some props)
    with PyDict assms have "lookup_path props [''BucketName''] = None" by simp
    with PyDict Some show ?thesis
      by (cases props) (simp_all add: create_def split: option.splits)
  qed
qed (simp_all add: create_def)

lemma delete_no_bucket:
  assumes "lookup_path event [''ResourceProperties'', ''BucketName''] = None"
  shows "delete env event w = (Inl ValueError, w) \<or> delete env event w = (Inl AttributeError, w)"
proof (cases event)
  case (PyDict ev)
  show ?thesis
  proof (cases "map_of ev ''ResourceProperties''")
    case None
    with PyDict show ?thesis by (simp add: delete_def)
  next
    case (Some props)
    with PyDict assms have "lookup_path props [''BucketName''] = None" by simp
    with PyDict Some show ?thesis
      by (cases props) (simp_all add: delete_def split: option.splits)
  qed
qed (simp_all add: delete_def)

lemma create_no_config:
  assumes "case lookup_path event [''ResourceProperties'', ''NotificationConfiguration''] of
             None \<Rightarrow> True | Some config \<Rightarrow> \<not> truthy config"
  shows "create env event w = (Inl ValueError, w) \<or> create env event w = (Inl AttributeError, w)"
proof (cases event)
  case (PyDict ev)
  show ?thesis
  proof (cases "map_of ev ''ResourceProperties''")
    case None
    with PyDict show ?thesis by (simp add: create_def)
  next
    case (Some props)
    with PyDict assms have "case lookup_path props [''NotificationConfiguration''] of
             None \<Rightarrow> True | Some config \<Rightarrow> \<not> truthy config" by simp
    with PyDict Some show ?thesis
      by (cases props) (simp_all add: create_def split: option.splits)
  qed
qed (simp_all add: create_def)

text \<open>
  Claim C7. Whenever \<open>BucketName\<close> is absent from the request's properties, the function
  of each of the three verbs raises (ValueError; AttributeError when the event or its
  properties are no dict) and leaves the world as it was: no put-notification call is
  made. For create and update the same holds when \<open>NotificationConfiguration\<close> is absent
  or empty.
\<close>

theorem configurator_requires_properties:
  assumes "lookup_path event [''ResourceProperties'', ''BucketName''] = None
     \<or> (v \<noteq> Delete \<and>
         (case lookup_path event [''ResourceProperties'', ''NotificationConfiguration''] of
            None \<Rightarrow> True | Some config \<Rightarrow> \<not> truthy config))"
  shows "(fst (configurator v env event w) = Inl ValueError
          \<or> fst (configurator v env event w) = Inl AttributeError)
       \<and> snd (configurator v env event w) = w"
proof -
  have "configurator v env event w = (Inl ValueError, w)
        \<or> configurator v env event w = (Inl AttributeError, w)"
    using assms create_no_bucket[of event env w] delete_no_bucket[of event env w]
      create_no_config[of event env w]
    by (cases v) auto
  then show ?thesis by auto
qed

theorem configurator_requires_properties_witness:
  "lookup_path (example_request [(''NotificationConfiguration'', example_notification)])
      [''ResourceProperties'', ''BucketName''] = None
   \<and> configurator Delete accepting
        (example_request [(''NotificationConfiguration'', example_notification)])
        example_world = (Inl ValueError, example_world)
   \<and> lookup_path (example_request [(''BucketName'', PyStr ''results'')])
      [''ResourceProperties'', ''NotificationConfiguration''] = None
   \<and> configurator Create accepting (example_request [(''BucketName'', PyStr ''results'')])
        example_world = (Inl ValueError, example_world)"
  using configurator_requires_properties[of
      "example_request [(''NotificationConfiguration'', example_notification)]"
      Delete accepting example_world]
    configurator_requires_properties[of
      "example_request [(''BucketName'', PyStr ''results'')]" Create accepting example_world]
  by (simp add: example_request_def delete_def create_def)

lemma put_bucket_notification_result:
  "put_bucket_notification env bucket config w =
     ((case answer env (calls w) (put_notification bucket config) of
         Raises e \<Rightarrow> Inl e | Response r \<Rightarrow> Inr ()),
      w\<lparr>calls := calls w @ [put_notification bucket config]\<rparr>)"
  by (simp add: put_bucket_notification_def client_call_def put_notification_def
      split: response.splits)

text \<open>
  Claim C8, as stated, fails: when the service rejects the put-notification call,
  \<open>create\<close> raises the error again and reports no identifier.
\<close>

theorem create_failure_reports_no_identifier:
  "configurator Create refusing
      (example_request [(''BucketName'', PyStr ''results''),
                        (''NotificationConfiguration'', example_notification)]) example_world
    = (Inl ClientError,
       \<lparr>calls = [put_notification (PyStr ''results'') example_notification], metrics = []\<rparr>)"
  by (simp add: example_request_def example_notification_def example_world_def refusing_def
      answer_def accepted_def put_notification_def create_def put_bucket_notification_def
      client_call_def)

text \<open>
  Claim C8, amended. Given a present (non-empty) \<open>BucketName\<close>, a create or update
  request with a non-empty \<open>NotificationConfiguration\<close> makes exactly one
  put-notification call, with that bucket and that very document; a delete request
  makes exactly one put-notification call with the empty configuration, whatever
  configuration the request carries. If the call raises, its exception leaves the
  function; otherwise create and update return the fixed identifier
  \<open>ResultsNotifications\<close> and delete returns None.
\<close>

theorem configurator_puts_notification:
  assumes "lookup_path event [''ResourceProperties'', ''BucketName''] = Some bucket"
    and "truthy bucket"
    and "v = Delete
         \<or> (lookup_path event [''ResourceProperties'', ''NotificationConfiguration''] = Some config
             \<and> truthy config)"
  shows "configurator v env event w =
     ((case answer env (calls w)
              (put_notification bucket (if v = Delete then PyDict [] else config)) of
         Raises e \<Rightarrow> Inl e
       | Response r \<Rightarrow> Inr (if v = Delete then PyNone else PyStr ''ResultsNotifications'')),
      w\<lparr>calls := calls w @ [put_notification bucket (if v = Delete then PyDict [] else config)]\<rparr>)"
proof -
  from lookup_path_step[OF assms(1)] obtain ev props where
    ev: "event = PyDict ev" "map_of ev ''ResourceProperties'' = Some props"
      "lookup_path props [''BucketName''] = Some bucket"
    by blast
  from lookup_path_step[OF ev(3)] obtain ps where
    ps: "props = PyDict ps" "map_of ps ''BucketName'' = Some bucket"
    by auto
  show ?thesis
  proof (cases "v = Delete")
    case True
    with ev ps assms(2) show ?thesis
      by (simp add: delete_def put_bucket_notification_result split: response.splits)
  next
    case False
    with assms(3) ev ps have c: "map_of ps ''NotificationConfiguration'' = Some config" "truthy config"
      by (auto split: option.splits)
    from False have "configurator v = create" by (cases v) simp_all
    with False ev ps c assms(2) show ?thesis
      by (simp add: create_def put_bucket_notification_result split: response.splits)
  qed
qed

theorem configurator_puts_notification_witness:
  "configurator Update accepting
      (example_request [(''BucketName'', PyStr ''results''),
                        (''NotificationConfiguration'', example_notification)]) example_world
    = (Inr (PyStr ''ResultsNotifications''),
       \<lparr>calls = [put_notification (PyStr ''results'') example_notification], metrics = []\<rparr>)
   \<and> configurator Delete accepting
      (example_request [(''BucketName'', PyStr ''results''),
                        (''NotificationConfiguration'', example_notification)]) example_world
    = (Inr PyNone, \<lparr>calls = [put_notification (PyStr ''results'') (PyDict [])], metrics = []\<rparr>)"
  using configurator_puts_notification[of
      "example_request [(''BucketName'', PyStr ''results''),
                        (''NotificationConfiguration'', example_notification)]"
      "PyStr ''results''" Update example_notification accepting example_world]
    configurator_puts_notification[of
      "example_request [(''BucketName'', PyStr ''results''),
                        (''NotificationConfiguration'', example_notification)]"
      "PyStr ''results''" Delete example_notification accepting example_world]
  by (simp add: example_request_def example_notification_def example_world_def accepting_def
      answer_def accepted_def put_notification_def)

end
